theory Spec2Isabelle
  imports Main "HOL-Library.Log_Nat"
begin

section \<open>JavaScript values used by the listener\<close>

subsection \<open>Numbers\<close>

text \<open>
  A JavaScript \<^verbatim>\<open>number\<close> is an IEEE-754 binary64 value. \<open>Fin q\<close> is the finite
  double whose exact value is the rational \<open>q\<close>; negative zero is identified with zero
  (\<^verbatim>\<open>===\<close>, \<^verbatim>\<open>||\<close>, the conditional operator and \<^verbatim>\<open>JSON.stringify\<close> do not
  tell them apart). Arithmetic computes the exact rational result and rounds it with
  \<open>fl\<close>: round to nearest, ties to even, 53 significant bits, gradual underflow below
  \<open>2\<^sup>-\<^sup>1\<^sup>0\<^sup>2\<^sup>2\<close>, overflow to an infinity when the rounded magnitude
  \<open>n \<sqdot> 2\<^sup>e\<^sup>-\<^sup>5\<^sup>2\<close> reaches \<open>2\<^sup>1\<^sup>0\<^sup>2\<^sup>4\<close>, that is when \<open>e > 1023\<close>, or \<open>e = 1023\<close> and
  \<open>n = 2\<^sup>5\<^sup>3\<close>.
\<close>

datatype jsnum = NaN | PInf | NInf | Fin rat

definition floor_log2 :: "rat \<Rightarrow> int" where
  \<comment> \<open>for \<open>0 < a\<close>: the \<open>e\<close> with \<open>2\<^sup>e \<le> a < 2\<^sup>e\<^sup>+\<^sup>1\<close>\<close>
  "floor_log2 a =
     (let (p, q) = quotient_of a;
          e0 = bitlen p - bitlen q
      in if a < power_int 2 e0 then e0 - 1 else e0)"

definition round_half_even :: "rat \<Rightarrow> int" where
  "round_half_even x =
     (let f = \<lfloor>x\<rfloor>; d = x - of_int f
      in if d < 1 / 2 then f else if 1 / 2 < d then f + 1 else if even f then f else f + 1)"

definition fl :: "rat \<Rightarrow> jsnum" where
  "fl q =
     (if q = 0 then Fin 0
      else let a = \<bar>q\<bar>;
               e = max (floor_log2 a) (- 1022);
               u = power_int 2 (e - 52);
               n = round_half_even (a / u)
           in if 1023 < e \<or> (e = 1023 \<and> 9007199254740992 \<le> n)
              then (if 0 < q then PInf else NInf)
              else Fin (if 0 < q then of_int n * u else - (of_int n * u)))"

fun js_sub :: "jsnum \<Rightarrow> jsnum \<Rightarrow> jsnum" where
  \<comment> \<open>the binary \<^verbatim>\<open>-\<close> operator on numbers\<close>
  "js_sub NaN _ = NaN"
| "js_sub _ NaN = NaN"
| "js_sub PInf PInf = NaN"
| "js_sub NInf NInf = NaN"
| "js_sub PInf _ = PInf"
| "js_sub NInf _ = NInf"
| "js_sub (Fin a) PInf = NInf"
| "js_sub (Fin a) NInf = PInf"
| "js_sub (Fin a) (Fin b) = fl (a - b)"

fun js_div :: "jsnum \<Rightarrow> jsnum \<Rightarrow> jsnum" where
  \<comment> \<open>the \<^verbatim>\<open>/\<close> operator on numbers; a zero divisor is the positive zero\<close>
  "js_div NaN _ = NaN"
| "js_div _ NaN = NaN"
| "js_div (Fin a) (Fin b) =
     (if b = 0 then (if a = 0 then NaN else if 0 < a then PInf else NInf) else fl (a / b))"
| "js_div (Fin a) _ = Fin 0"
| "js_div PInf (Fin b) = (if 0 \<le> b then PInf else NInf)"
| "js_div NInf (Fin b) = (if 0 \<le> b then NInf else PInf)"
| "js_div _ _ = NaN"

definition num_truthy :: "jsnum \<Rightarrow> bool" where
  \<comment> \<open>ToBoolean on a number: zero and NaN are falsy\<close>
  "num_truthy n \<longleftrightarrow> n \<noteq> NaN \<and> n \<noteq> Fin 0"

subsection \<open>Strings\<close>

text \<open>
  Strings are sequences of code units below 256 (the Latin-1 range). \<^verbatim>\<open>toUpperCase\<close>
  is modelled on the ASCII letters; the other code units are left as they are. The
  listener only compares the outcome with \<^verbatim>\<open>'SOL'\<close>, and within this range the only
  code units that upper-case to \<open>S\<close>, \<open>O\<close> or \<open>L\<close> are ASCII letters.
\<close>

definition upper_char :: "char \<Rightarrow> char" where
  "upper_char c =
     (case map_of (zip ''abcdefghijklmnopqrstuvwxyz'' ''ABCDEFGHIJKLMNOPQRSTUVWXYZ'') c of
        Some u \<Rightarrow> u
      | None \<Rightarrow> c)"

definition toUpperCase :: "string \<Rightarrow> string" where
  "toUpperCase s = map upper_char s"

definition str_truthy :: "string \<Rightarrow> bool" where
  \<comment> \<open>ToBoolean on a string: only the empty string is falsy\<close>
  "str_truthy s \<longleftrightarrow> s \<noteq> []"

subsection \<open>The global function parseFloat\<close>

text \<open>
  \<^verbatim>\<open>parseFloat\<close> (ECMAScript, sec. 19.2.4) skips leading white space, takes the longest
  prefix of the rest that is a \<^verbatim>\<open>StrDecimalLiteral\<close> (an optional sign, then
  \<^verbatim>\<open>Infinity\<close> or decimal digits with an optional fraction and exponent) and returns
  its value rounded to a double. It returns \<^verbatim>\<open>NaN\<close> when there is no such prefix. It
  never throws on a string.
\<close>

definition is_digit :: "char \<Rightarrow> bool" where
  "is_digit c \<longleftrightarrow> c \<in> set ''0123456789''"

definition is_js_space :: "char \<Rightarrow> bool" where
  \<comment> \<open>TAB, LF, VT, FF, CR, SP and NBSP\<close>
  "is_js_space c \<longleftrightarrow> (of_char c :: nat) \<in> {9, 10, 11, 12, 13, 32, 160}"

definition digits_val :: "string \<Rightarrow> int" where
  "digits_val ds = foldl (\<lambda>acc c. 10 * acc + (of_char c - 48)) 0 ds"

definition exponent_part :: "string \<Rightarrow> int" where
  \<comment> \<open>the value of a leading \<^verbatim>\<open>ExponentPart\<close>, 0 when there is none\<close>
  "exponent_part s =
     (case s of
        [] \<Rightarrow> 0
      | c # r \<Rightarrow>
          if c = CHR ''e'' \<or> c = CHR ''E'' then
            (case r of
               [] \<Rightarrow> 0
             | d # r' \<Rightarrow>
                 if d = CHR ''-'' then - digits_val (takeWhile is_digit r')
                 else if d = CHR ''+'' then digits_val (takeWhile is_digit r')
                 else digits_val (takeWhile is_digit r))
          else 0)"

definition unsigned_literal :: "string \<Rightarrow> jsnum" where
  \<comment> \<open>the value of the longest leading \<^verbatim>\<open>StrUnsignedDecimalLiteral\<close>, NaN when none\<close>
  "unsigned_literal s =
     (if take 8 s = ''Infinity'' then PInf
      else
        let ip = takeWhile is_digit s;
            r1 = dropWhile is_digit s;
            dot = (r1 \<noteq> [] \<and> hd r1 = CHR ''.'');
            fp = (if dot then takeWhile is_digit (tl r1) else []);
            r2 = (if dot then dropWhile is_digit (tl r1) else r1)
        in if ip = [] \<and> fp = [] then NaN
           else fl (of_int (digits_val (ip @ fp)) / 10 ^ length fp
                    * power_int 10 (exponent_part r2)))"

fun js_neg :: "jsnum \<Rightarrow> jsnum" where
  "js_neg NaN = NaN"
| "js_neg PInf = NInf"
| "js_neg NInf = PInf"
| "js_neg (Fin a) = Fin (- a)"

definition parseFloat :: "string \<Rightarrow> jsnum" where
  "parseFloat s =
     (case dropWhile is_js_space s of
        [] \<Rightarrow> NaN
      | c # r \<Rightarrow>
          if c = CHR ''-'' then js_neg (unsigned_literal r)
          else if c = CHR ''+'' then unsigned_literal r
          else unsigned_literal (c # r))"

subsection \<open>Date.prototype.toISOString\<close>

text \<open>
  \<^verbatim>\<open>new Date(v)\<close> keeps the time value \<open>v\<close> (milliseconds since the epoch) when
  \<open>\<bar>v\<bar> \<le> 8.64 \<sqdot> 10\<^sup>1\<^sup>5\<close> and is an invalid date otherwise; \<^verbatim>\<open>toISOString\<close> throws a
  \<^verbatim>\<open>RangeError\<close> on an invalid date and renders a valid one in UTC as
  \<^verbatim>\<open>YYYY-MM-DDTHH:mm:ss.sssZ\<close>, with a sign and six digits for a year outside 0..9999.
\<close>

datatype js_error = TypeError | RangeError | RpcError string

fun pad :: "nat \<Rightarrow> int \<Rightarrow> string" where
  \<comment> \<open>the last \<open>w\<close> decimal digits of \<open>n\<close>\<close>
  "pad 0 n = []"
| "pad (Suc w) n = pad w (n div 10) @ [''0123456789'' ! nat (n mod 10)]"

definition civil_from_days :: "int \<Rightarrow> int \<times> int \<times> int" where
  \<comment> \<open>year, month and day of the proleptic Gregorian calendar, from the day number\<close>
  "civil_from_days z0 =
     (let z = z0 + 719468;
          era = z div 146097;
          doe = z mod 146097;
          yoe = (doe - doe div 1460 + doe div 36524 - doe div 146096) div 365;
          doy = doe - (365 * yoe + yoe div 4 - yoe div 100);
          mp = (5 * doy + 2) div 153;
          d = doy - (153 * mp + 2) div 5 + 1;
          m = (if mp < 10 then mp + 3 else mp - 9);
          y = yoe + era * 400 + (if m \<le> 2 then 1 else 0)
      in (y, m, d))"

definition toISOString :: "int \<Rightarrow> js_error + string" where
  "toISOString tv =
     (if 8640000000000000 < \<bar>tv\<bar> then Inl RangeError
      else
        let (y, m, d) = civil_from_days (tv div 86400000);
            t = tv mod 86400000;
            year = (if 0 \<le> y \<and> y \<le> 9999 then pad 4 y
                    else (if y < 0 then ''-'' else ''+'') @ pad 6 \<bar>y\<bar>)
        in Inr (year @ ''-'' @ pad 2 m @ ''-'' @ pad 2 d @ ''T'' @ pad 2 (t div 3600000) @ '':''
                @ pad 2 (t div 60000 mod 60) @ '':'' @ pad 2 (t div 1000 mod 60) @ ''.''
                @ pad 3 (t mod 1000) @ ''Z''))"

section \<open>The data of a request\<close>

subsection \<open>The parsed transaction of the ledger client\<close>

text \<open>
  \<^verbatim>\<open>ParsedTransactionWithMeta\<close> of the ledger client library, with the fields the
  listener reads (of a token amount it reads \<^verbatim>\<open>uiAmountString\<close> only). \<open>accountKeys\<close>
  holds \<^verbatim>\<open>pubkey.toBase58()\<close> of each account key. An optional or nullable field is an
  \<open>option\<close> (\<^verbatim>\<open>null\<close> and \<^verbatim>\<open>undefined\<close> are both \<open>None\<close>: the listener only tests
  them for truthiness or with \<^verbatim>\<open>?.\<close>). The client library checks every record against
  its schema, so the required fields (\<^verbatim>\<open>mint\<close>, \<^verbatim>\<open>uiTokenAmount\<close>, the balance lists)
  are always there. The block time is the ledger's Unix timestamp, a whole number of
  seconds.
\<close>

record TokenAmount =
  uiAmountString :: "string option"

record TokenBalance =
  accountIndex :: nat
  mint :: string
  owner :: "string option"
  uiTokenAmount :: TokenAmount

record TransactionMeta =
  preBalances :: "jsnum list"
  postBalances :: "jsnum list"
  preTokenBalances :: "TokenBalance list option"
  postTokenBalances :: "TokenBalance list option"

record ParsedTransaction =
  accountKeys :: "string list"
  meta :: "TransactionMeta option"
  blockTime :: "int option"

subsection \<open>Configuration and result\<close>

text \<open>The two environment variables of the watch criteria; \<open>None\<close> is an unset variable.\<close>

record env =
  USDC_MINT :: "string option"
  SOLANA_ADDR :: "string option"

record 'sig TransactionResult =
  signature :: 'sig
  preAmount :: jsnum
  postAmount :: jsnum
  uiAmount :: jsnum
  timestamp :: "string option"

text \<open>
  The signature is whatever value the caller hands over: a string from the URL path, any
  truthy JSON value from a webhook body. The extractor only passes it on, so its type is
  a parameter.
\<close>

subsection \<open>The world outside: ledger, store and the calls made\<close>

record db_error =
  code :: "string option"
  message :: string

record 'sig StoredTransactionData =
  stored_signature :: 'sig
  pre_amount :: jsnum
  post_amount :: jsnum
  ui_amount :: jsnum
  transaction_timestamp :: "string option"

datatype 'sig io_call = LedgerFetch 'sig | DbSelect 'sig | DbUpsert 'sig

text \<open>
  \<open>ledger\<close> is what \<^verbatim>\<open>getParsedTransaction\<close> answers for a signature: a record,
  \<^verbatim>\<open>null\<close>, or a rejection. \<open>supabaseClient\<close> is \<open>None\<close> when the client was not
  initialised, and the table of rows by signature otherwise; \<open>db_fault\<close> is an error the
  store reports on a request (\<open>None\<close> when it is healthy). \<open>calls\<close> records every call
  to the ledger client and to the store, in order.
\<close>

record 'sig world =
  ledger :: "'sig \<Rightarrow> js_error + ParsedTransaction option"
  supabaseClient :: "('sig \<Rightarrow> 'sig StoredTransactionData option) option"
  db_fault :: "db_error option"
  calls :: "'sig io_call list"

definition getParsedTransaction ::
  "'sig \<Rightarrow> 'sig world \<Rightarrow> (js_error + ParsedTransaction option) \<times> 'sig world" where
  "getParsedTransaction sig w = (ledger w sig, w\<lparr>calls := calls w @ [LedgerFetch sig]\<rparr>)"

section \<open>The balance-delta extractor\<close>

definition LAMPORTS_PER_SOL :: jsnum where
  "LAMPORTS_PER_SOL = Fin 1000000000"

definition findIndex :: "('a \<Rightarrow> bool) \<Rightarrow> 'a list \<Rightarrow> int" where
  \<comment> \<open>\<^verbatim>\<open>Array.prototype.findIndex\<close>: the first index that satisfies the predicate, or -1\<close>
  "findIndex P xs = (if list_ex P xs then int (length (takeWhile (\<lambda>x. \<not> P x) xs)) else - 1)"

definition or_zero :: "jsnum list \<Rightarrow> int \<Rightarrow> jsnum" where
  \<comment> \<open>\<^verbatim>\<open>xs[i] || 0\<close>: an index out of range reads \<^verbatim>\<open>undefined\<close>\<close>
  "or_zero xs i =
     (if 0 \<le> i \<and> nat i < length xs \<and> num_truthy (xs ! nat i) then xs ! nat i else Fin 0)"

text \<open>
  Both variants compute the amount of a side with the same conditional expression; the
  serverless one writes \<^verbatim>\<open>?.\<close> after \<^verbatim>\<open>uiTokenAmount\<close> too, which makes no difference
  on a field that is always there.
\<close>

definition amount_of :: "TokenBalance option \<Rightarrow> jsnum" where
  \<comment> \<open>\<^verbatim>\<open>b?.uiTokenAmount?.uiAmountString ? parseFloat(b.uiTokenAmount.uiAmountString) : 0\<close>\<close>
  "amount_of b =
     (case b of
        None \<Rightarrow> Fin 0
      | Some tb \<Rightarrow>
          (case uiAmountString (uiTokenAmount tb) of
             None \<Rightarrow> Fin 0
           | Some s \<Rightarrow> if str_truthy s then parseFloat s else Fin 0))"

definition find_opt :: "('a \<Rightarrow> bool) \<Rightarrow> 'a list option \<Rightarrow> 'a option" where
  \<comment> \<open>\<^verbatim>\<open>xs?.find(P)\<close>\<close>
  "find_opt P xs = (case xs of None \<Rightarrow> None | Some ys \<Rightarrow> List.find P ys)"

text \<open>
  The product \<^verbatim>\<open>tx.blockTime * 1000\<close> is exact as a double up to \<open>2\<^sup>5\<^sup>3\<close>, which lies
  above the largest time value of a \<^verbatim>\<open>Date\<close>; a larger product, rounded or not, is an
  invalid date. So the integer product decides.
\<close>

definition make_timestamp :: "int option \<Rightarrow> js_error + string option" where
  \<comment> \<open>\<^verbatim>\<open>tx.blockTime ? new Date(tx.blockTime * 1000).toISOString() : null\<close>\<close>
  "make_timestamp bt =
     (case bt of
        None \<Rightarrow> Inr None
      | Some t \<Rightarrow>
          if t = 0 then Inr None
          else (case toISOString (t * 1000) of Inl e \<Rightarrow> Inl e | Inr s \<Rightarrow> Inr (Some s)))"

definition make_result ::
  "'sig \<Rightarrow> jsnum \<Rightarrow> jsnum \<Rightarrow> int option \<Rightarrow> js_error + 'sig TransactionResult option" where
  \<comment> \<open>the subtraction and the object literal that end both extractors\<close>
  "make_result sig pre post bt =
     (let ui = js_sub post pre
      in case make_timestamp bt of
           Inl e \<Rightarrow> Inl e
         | Inr ts \<Rightarrow>
             Inr (Some \<lparr>signature = sig, preAmount = pre, postAmount = post, uiAmount = ui,
                        timestamp = ts\<rparr>))"

text \<open>
  The serverless variant (\<^verbatim>\<open>fetchAndProcessSolanaTransaction\<close> of the edge function).
  The outcome is \<open>Inr None\<close> for \<^verbatim>\<open>null\<close> ("not applicable"), \<open>Inr (Some r)\<close> for a result
  and \<open>Inl e\<close> when the returned promise rejects.
\<close>

definition fetchAndProcessSolanaTransaction ::
  "env \<Rightarrow> 'sig \<Rightarrow> 'sig world \<Rightarrow> (js_error + 'sig TransactionResult option) \<times> 'sig world" where
  "fetchAndProcessSolanaTransaction ev sig w =
     (case (USDC_MINT ev, SOLANA_ADDR ev) of
        (Some usdc, Some addr) \<Rightarrow>
          if \<not> str_truthy usdc \<or> \<not> str_truthy addr then (Inr None, w)
          else
            (case getParsedTransaction sig w of
               (Inl e, w') \<Rightarrow> (Inl e, w')
             | (Inr None, w') \<Rightarrow> (Inr None, w')
             | (Inr (Some tx), w') \<Rightarrow>
                 (case meta tx of
                    None \<Rightarrow> (Inr None, w')
                  | Some m \<Rightarrow>
                      if toUpperCase usdc = ''SOL'' then
                        let accountIndex = findIndex (\<lambda>acc. acc = addr) (accountKeys tx)
                        in if accountIndex \<noteq> - 1 then
                             (make_result sig
                                (js_div (or_zero (preBalances m) accountIndex) LAMPORTS_PER_SOL)
                                (js_div (or_zero (postBalances m) accountIndex) LAMPORTS_PER_SOL)
                                (blockTime tx), w')
                           else (make_result sig (Fin 0) (Fin 0) (blockTime tx), w')
                      else
                        let preBalance =
                              find_opt (\<lambda>b. mint b = usdc \<and> owner b = Some addr)
                                (preTokenBalances m);
                            postBalance =
                              find_opt (\<lambda>b. mint b = usdc \<and> owner b = Some addr)
                                (postTokenBalances m)
                        in (make_result sig (amount_of preBalance) (amount_of postBalance)
                              (blockTime tx), w')))
      | _ \<Rightarrow> (Inr None, w))"

text \<open>
  The long-running server's variant (\<^verbatim>\<open>processTransaction\<close>). It fetches first and
  tests the environment afterwards. \<^verbatim>\<open>(balance.owner || '')\<close> reads an absent owner as
  the empty string; \<^verbatim>\<open>(balance.mint || '')\<close> is the mint itself, a string.
\<close>

definition or_empty :: "string option \<Rightarrow> string" where
  "or_empty s = (case s of None \<Rightarrow> [] | Some x \<Rightarrow> x)"

definition processTransaction ::
  "env \<Rightarrow> 'sig \<Rightarrow> 'sig world \<Rightarrow> (js_error + 'sig TransactionResult option) \<times> 'sig world" where
  "processTransaction ev sig w =
     (case getParsedTransaction sig w of
        (Inl e, w') \<Rightarrow> (Inl e, w')
      | (Inr None, w') \<Rightarrow> (Inr None, w')
      | (Inr (Some tx), w') \<Rightarrow>
          (case meta tx of
             None \<Rightarrow> (Inr None, w')
           | Some m \<Rightarrow>
               if \<not> str_truthy (or_empty (USDC_MINT ev)) \<or> \<not> str_truthy (or_empty (SOLANA_ADDR ev))
               then (Inr None, w')
               else
                 let preBalance =
                       find_opt (\<lambda>balance. Some (mint balance) = USDC_MINT ev
                                   \<and> Some (or_empty (owner balance)) = SOLANA_ADDR ev)
                         (preTokenBalances m);
                     postBalance =
                       find_opt (\<lambda>balance. Some (mint balance) = USDC_MINT ev
                                   \<and> Some (or_empty (owner balance)) = SOLANA_ADDR ev)
                         (postTokenBalances m)
                 in (make_result sig (amount_of preBalance) (amount_of postBalance)
                       (blockTime tx), w')))"

section \<open>The request handlers\<close>

subsection \<open>JSON bodies\<close>

text \<open>
  A value as \<^verbatim>\<open>JSON.parse\<close> builds it, and \<^verbatim>\<open>undefined\<close> for what a property read
  may give. \<open>JObj\<close> lists the own properties of an object, each key once. The listener
  reads the properties \<^verbatim>\<open>signature\<close>, \<^verbatim>\<open>event\<close>, \<^verbatim>\<open>transaction\<close> and the index 0;
  none of them is a built-in property of a string, number, boolean or array, so a read
  on these gives \<^verbatim>\<open>undefined\<close>, apart from the index 0 of a string or an array.
\<close>

datatype jsval =
    JUndefined
  | JNull
  | JBool bool
  | JNum jsnum
  | JStr string
  | JArr "jsval list"
  | JObj "(string \<times> jsval) list"

fun truthy :: "jsval \<Rightarrow> bool" where
  "truthy JUndefined = False"
| "truthy JNull = False"
| "truthy (JBool b) = b"
| "truthy (JNum n) = num_truthy n"
| "truthy (JStr s) = str_truthy s"
| "truthy (JArr xs) = True"
| "truthy (JObj kvs) = True"

fun nullish :: "jsval \<Rightarrow> bool" where
  "nullish JUndefined = True"
| "nullish JNull = True"
| "nullish _ = False"

fun get_prop :: "jsval \<Rightarrow> string \<Rightarrow> jsval" where
  \<comment> \<open>the property \<open>k\<close> of a value that is neither \<^verbatim>\<open>null\<close> nor \<^verbatim>\<open>undefined\<close>\<close>
  "get_prop (JObj kvs) k = (case map_of kvs k of Some v \<Rightarrow> v | None \<Rightarrow> JUndefined)"
| "get_prop _ k = JUndefined"

fun elem0 :: "jsval \<Rightarrow> jsval" where
  \<comment> \<open>\<^verbatim>\<open>v[0]\<close> on a value that is neither \<^verbatim>\<open>null\<close> nor \<^verbatim>\<open>undefined\<close>\<close>
  "elem0 (JArr xs) = (case xs of [] \<Rightarrow> JUndefined | x # _ \<Rightarrow> x)"
| "elem0 (JStr s) = (case s of [] \<Rightarrow> JUndefined | c # _ \<Rightarrow> JStr [c])"
| "elem0 (JObj kvs) = get_prop (JObj kvs) ''0''"
| "elem0 _ = JUndefined"

definition dot :: "jsval \<Rightarrow> string \<Rightarrow> js_error + jsval" where
  \<comment> \<open>\<^verbatim>\<open>v.k\<close>: a TypeError on \<^verbatim>\<open>null\<close> and \<^verbatim>\<open>undefined\<close>\<close>
  "dot v k = (if nullish v then Inl TypeError else Inr (get_prop v k))"

definition opt_dot :: "jsval \<Rightarrow> string \<Rightarrow> jsval" where
  \<comment> \<open>\<^verbatim>\<open>v?.k\<close>\<close>
  "opt_dot v k = (if nullish v then JUndefined else get_prop v k)"

definition opt_elem0 :: "jsval \<Rightarrow> jsval" where
  \<comment> \<open>\<^verbatim>\<open>v?.[0]\<close>\<close>
  "opt_elem0 v = (if nullish v then JUndefined else elem0 v)"

definition event_signature :: "jsval \<Rightarrow> js_error + jsval" where
  \<comment> \<open>\<^verbatim>\<open>body.event?.transaction?.[0]?.signature\<close>\<close>
  "event_signature body =
     (case dot body ''event'' of
        Inl e \<Rightarrow> Inl e
      | Inr ev \<Rightarrow> Inr (opt_dot (opt_elem0 (opt_dot ev ''transaction'')) ''signature''))"

subsection \<open>Responses\<close>

datatype 'sig payload =
    ErrorMessage string
  | ErrorDetails string string
  | NotProcessed 'sig
  | NotFound 'sig
  | Processed "'sig TransactionResult"
  | TransactionView 'sig jsnum "string option" "string option"
  | NoPayload

record 'sig response =
  status :: nat
  payload :: "'sig payload"

definition createJsonResponse :: "'sig payload \<Rightarrow> nat \<Rightarrow> 'sig response" where
  "createJsonResponse b st = \<lparr>status = st, payload = b\<rparr>"

subsection \<open>The store of the serverless variant\<close>

definition not_initialized :: db_error where
  "not_initialized = \<lparr>code = None, message = ''Supabase client not initialized.''\<rparr>"

definition storeTransactionInDb ::
  "'sig TransactionResult \<Rightarrow> 'sig world \<Rightarrow> db_error option \<times> 'sig world" where
  "storeTransactionInDb transaction w =
     (case supabaseClient w of
        None \<Rightarrow> (Some not_initialized, w)
      | Some table \<Rightarrow>
          (let dataToStore =
                 \<lparr>stored_signature = signature transaction, pre_amount = preAmount transaction,
                  post_amount = postAmount transaction, ui_amount = uiAmount transaction,
                  transaction_timestamp = timestamp transaction\<rparr>;
               w' = w\<lparr>calls := calls w @ [DbUpsert (signature transaction)]\<rparr>
           in (case db_fault w of
                 Some e \<Rightarrow> (Some e, w')
               | None \<Rightarrow>
                   (None, w'\<lparr>supabaseClient :=
                               Some (fun_upd table (signature transaction) (Some dataToStore))\<rparr>))))"

definition select_single ::
  "'sig \<Rightarrow> 'sig world \<Rightarrow> 'sig StoredTransactionData option \<times> db_error option" where
  \<comment> \<open>\<^verbatim>\<open>.select(...).eq('signature', signature).single()\<close>: no row is the error PGRST116\<close>
  "select_single sig w =
     (case db_fault w of
        Some e \<Rightarrow> (None, Some e)
      | None \<Rightarrow>
          (case supabaseClient w of
             None \<Rightarrow> (None, Some not_initialized)
           | Some table \<Rightarrow>
               (case table sig of
                  None \<Rightarrow> (None, Some \<lparr>code = Some ''PGRST116'', message = ''no rows''\<rparr>)
                | Some row \<Rightarrow> (Some row, None))))"

definition fetchTransactionFromDb ::
  "'sig \<Rightarrow> 'sig world
     \<Rightarrow> ('sig StoredTransactionData option \<times> db_error option) \<times> 'sig world" where
  "fetchTransactionFromDb sig w =
     (case supabaseClient w of
        None \<Rightarrow> ((None, Some not_initialized), w)
      | Some table \<Rightarrow>
          (case (select_single sig w, w\<lparr>calls := calls w @ [DbSelect sig]\<rparr>) of
             ((data, Some e), w') \<Rightarrow>
               if code e = Some ''PGRST116'' then ((None, None), w')
               else ((data, Some e), w')
           | ((data, None), w') \<Rightarrow> ((data, None), w')))"

subsection \<open>The handlers of the serverless variant\<close>

definition array_signature :: "jsval \<Rightarrow> js_error + jsval" where
  \<comment> \<open>\<^verbatim>\<open>Array.isArray(body) && body.length > 0 && body[0].signature\<close>\<close>
  "array_signature body =
     (case body of
        JArr (x # xs) \<Rightarrow> dot x ''signature''
      | _ \<Rightarrow> Inr (JBool False))"

definition direct_signature :: "jsval \<Rightarrow> js_error + jsval" where
  \<comment> \<open>\<^verbatim>\<open>body.signature\<close>\<close>
  "direct_signature body = dot body ''signature''"

definition webhook_signature :: "jsval \<Rightarrow> js_error + jsval" where
  \<comment> \<open>the \<^verbatim>\<open>if\<close> chain of \<^verbatim>\<open>handleWebhookPost\<close>; \<^verbatim>\<open>undefined\<close> when no branch assigns\<close>
  "webhook_signature body =
     (case array_signature body of
        Inl e \<Rightarrow> Inl e
      | Inr s1 \<Rightarrow>
          if truthy s1 then Inr s1
          else
            (case event_signature body of
               Inl e \<Rightarrow> Inl e
             | Inr s2 \<Rightarrow>
                 if truthy s2 then Inr s2
                 else
                   (case direct_signature body of
                      Inl e \<Rightarrow> Inl e
                    | Inr s3 \<Rightarrow> if truthy s3 then Inr s3 else Inr JUndefined)))"

text \<open>
  The body of a request is \<open>None\<close> when \<^verbatim>\<open>req.json()\<close> throws. An outcome \<open>Inl e\<close> is an
  exception that leaves the handler.
\<close>

definition handleWebhookPost ::
  "env \<Rightarrow> jsval option \<Rightarrow> jsval world \<Rightarrow> (js_error + jsval response) \<times> jsval world" where
  "handleWebhookPost ev req w =
     (case req of
        None \<Rightarrow> (Inr (createJsonResponse (ErrorMessage ''Invalid JSON payload'') 400), w)
      | Some body \<Rightarrow>
          (case webhook_signature body of
             Inl e \<Rightarrow> (Inr (createJsonResponse (ErrorMessage ''Invalid JSON payload'') 400), w)
           | Inr sig \<Rightarrow>
               if \<not> truthy sig then
                 (Inr (createJsonResponse
                         (ErrorMessage ''No signature found in webhook payload'') 400), w)
               else
                 (case fetchAndProcessSolanaTransaction ev sig w of
                    (Inl e, w1) \<Rightarrow> (Inl e, w1)
                  | (Inr None, w1) \<Rightarrow> (Inr (createJsonResponse (NotProcessed sig) 404), w1)
                  | (Inr (Some processedTx), w1) \<Rightarrow>
                      (case storeTransactionInDb processedTx w1 of
                         (Some dbError, w2) \<Rightarrow>
                           (Inr (createJsonResponse
                                   (ErrorDetails ''Failed to store transaction data''
                                      (message dbError)) 500), w2)
                       | (None, w2) \<Rightarrow>
                           (Inr (createJsonResponse (Processed processedTx) 200), w2)))))"

definition handleGetTransaction ::
  "env \<Rightarrow> string \<Rightarrow> string world \<Rightarrow> (js_error + string response) \<times> string world" where
  "handleGetTransaction ev sig w =
     (if \<not> str_truthy sig then
        (Inr (createJsonResponse (ErrorMessage ''Transaction signature is required'') 400), w)
      else
        (case fetchAndProcessSolanaTransaction ev sig w of
           (Inl e, w1) \<Rightarrow> (Inl e, w1)
         | (Inr None, w1) \<Rightarrow> (Inr (createJsonResponse (NotFound sig) 404), w1)
         | (Inr (Some liveTx), w1) \<Rightarrow>
             (Inr (createJsonResponse
                     (TransactionView (signature liveTx) (uiAmount liveTx) (timestamp liveTx)
                        (Some ''live_solana_api'')) 200), w1)))"

subsection \<open>The handlers of the long-running server\<close>

text \<open>
  \<open>api_webhook\<close> is the handler of \<^verbatim>\<open>POST /api/webhook\<close>, \<open>api_tx\<close> that of
  \<^verbatim>\<open>GET /api/tx/:signature\<close>. \<open>Inl e\<close> is an error handed to \<^verbatim>\<open>next\<close>.
\<close>

definition api_webhook ::
  "env \<Rightarrow> jsval \<Rightarrow> jsval world \<Rightarrow> (js_error + jsval response) \<times> jsval world" where
  "api_webhook ev body w =
     (case event_signature body of
        Inl e \<Rightarrow> (Inl e, w)
      | Inr sig \<Rightarrow>
          if \<not> truthy sig then (Inr (createJsonResponse NoPayload 400), w)
          else
            (case processTransaction ev sig w of
               (Inl e, w1) \<Rightarrow> (Inl e, w1)
             | (Inr None, w1) \<Rightarrow> (Inr (createJsonResponse NoPayload 404), w1)
             | (Inr (Some result), w1) \<Rightarrow> (Inr (createJsonResponse NoPayload 200), w1)))"

definition api_tx ::
  "env \<Rightarrow> string \<Rightarrow> string world \<Rightarrow> (js_error + string response) \<times> string world" where
  "api_tx ev sig w =
     (if \<not> str_truthy sig then
        (Inr (createJsonResponse (ErrorMessage ''Transaction signature is required'') 400), w)
      else
        (case processTransaction ev sig w of
           (Inl e, w1) \<Rightarrow> (Inl e, w1)
         | (Inr None, w1) \<Rightarrow> (Inr (createJsonResponse NoPayload 404), w1)
         | (Inr (Some result), w1) \<Rightarrow>
             (Inr (createJsonResponse
                     (TransactionView (signature result) (uiAmount result) (timestamp result)
                        None) 200), w1)))"

section \<open>Notions used by the properties\<close>

definition renderable :: "int option \<Rightarrow> bool" where
  \<comment> \<open>the block time is absent, or its instant is one a \<^verbatim>\<open>Date\<close> can hold\<close>
  "renderable bt = (case bt of None \<Rightarrow> True | Some t \<Rightarrow> \<bar>t * 1000\<bar> \<le> 8640000000000000)"

definition numeric_prefix :: "string \<Rightarrow> bool" where
  \<comment> \<open>after white space and an optional sign: \<^verbatim>\<open>Infinity\<close>, a digit, or a dot and a digit\<close>
  "numeric_prefix s =
     (let t = dropWhile is_js_space s;
          u = (if t \<noteq> [] \<and> (hd t = CHR ''+'' \<or> hd t = CHR ''-'') then tl t else t)
      in take 8 u = ''Infinity'' \<or> (u \<noteq> [] \<and> is_digit (hd u))
         \<or> (u \<noteq> [] \<and> hd u = CHR ''.'' \<and> tl u \<noteq> [] \<and> is_digit (hd (tl u))))"

definition matches :: "string \<Rightarrow> string \<Rightarrow> TokenBalance \<Rightarrow> bool" where
  \<comment> \<open>the entry is one of the mint \<open>usdc\<close> owned by \<open>addr\<close>\<close>
  "matches usdc addr b \<longleftrightarrow> mint b = usdc \<and> owner b = Some addr"

definition no_entry :: "string \<Rightarrow> string \<Rightarrow> TokenBalance list option \<Rightarrow> bool" where
  \<comment> \<open>the list is absent or holds no entry of the mint \<open>usdc\<close> owned by \<open>addr\<close>\<close>
  "no_entry usdc addr bs =
     (case bs of None \<Rightarrow> True | Some xs \<Rightarrow> \<forall>b \<in> set xs. \<not> matches usdc addr b)"

definition parses_to :: "string option \<Rightarrow> jsnum \<Rightarrow> bool" where
  \<comment> \<open>what an amount string contributes: 0 when absent or empty, else what parseFloat reads\<close>
  "parses_to str v \<longleftrightarrow>
     (str = None \<or> str = Some [] \<longrightarrow> v = Fin 0)
     \<and> (\<forall>s. str = Some s \<and> s \<noteq> [] \<longrightarrow> v = parseFloat s \<and> (v = NaN \<longleftrightarrow> \<not> numeric_prefix s))"

definition canonical_body :: "jsval \<Rightarrow> jsval" where
  \<comment> \<open>the body \<^verbatim>\<open>{"signature": s}\<close>\<close>
  "canonical_body s = JObj [(''signature'', s)]"

definition event_body :: "jsval \<Rightarrow> jsval" where
  \<comment> \<open>the body \<^verbatim>\<open>{"event": {"transaction": [{"signature": s}]}}\<close>\<close>
  "event_body s = JObj [(''event'', JObj [(''transaction'', JArr [canonical_body s])])]"

subsection \<open>Sample data\<close>

text \<open>
  The watch criteria and a transaction in which the watched owner's balance of the
  watched mint goes from \<open>pre\<close> to \<open>post\<close>, and its native balance from one coin to
  three; a transaction that does not involve the watched address at all; and a world
  whose ledger answers every signature with the same record.
\<close>

definition watch_env :: env where
  "watch_env = \<lparr>USDC_MINT = Some ''USDC_MINT'', SOLANA_ADDR = Some ''SOLANA_ADDR''\<rparr>"

definition sol_env :: env where
  "sol_env = \<lparr>USDC_MINT = Some ''sol'', SOLANA_ADDR = Some ''SOLANA_ADDR''\<rparr>"

definition token_entry :: "string option \<Rightarrow> TokenBalance" where
  "token_entry s =
     \<lparr>accountIndex = 1, mint = ''USDC_MINT'', owner = Some ''SOLANA_ADDR'',
      uiTokenAmount = \<lparr>uiAmountString = s\<rparr>\<rparr>"

definition transfer_tx :: "string \<Rightarrow> string \<Rightarrow> int option \<Rightarrow> ParsedTransaction" where
  "transfer_tx pre post bt =
     \<lparr>accountKeys = [''PAYER'', ''SOLANA_ADDR''],
      meta = Some \<lparr>preBalances = [Fin 5000000000, Fin 1000000000],
                   postBalances = [Fin 4999995000, Fin 3000000000],
                   preTokenBalances = Some [token_entry (Some pre)],
                   postTokenBalances = Some [token_entry (Some post)]\<rparr>,
      blockTime = bt\<rparr>"

definition foreign_tx :: "int option \<Rightarrow> ParsedTransaction" where
  "foreign_tx bt =
     \<lparr>accountKeys = [''PAYER'', ''PAYEE''],
      meta = Some \<lparr>preBalances = [Fin 5000000000, Fin 0],
                   postBalances = [Fin 3999995000, Fin 1000000000],
                   preTokenBalances = Some [], postTokenBalances = None\<rparr>,
      blockTime = bt\<rparr>"

definition world_with :: "ParsedTransaction option \<Rightarrow> 'sig world" where
  "world_with rec =
     \<lparr>ledger = (\<lambda>_. Inr rec), supabaseClient = Some (\<lambda>_. None), db_fault = None, calls = []\<rparr>"

definition stored_row :: "string StoredTransactionData" where
  "stored_row =
     \<lparr>stored_signature = ''S1'', pre_amount = Fin 10, post_amount = Fin 15, ui_amount = Fin 5,
      transaction_timestamp = None\<rparr>"

definition stored_world :: "string world" where
  \<comment> \<open>the store already holds a row for the signature S1\<close>
  "stored_world =
     \<lparr>ledger = (\<lambda>_. Inr (Some (transfer_tx ''10.0'' ''10.5'' (Some 1700000000)))),
      supabaseClient = Some (\<lambda>s. if s = ''S1'' then Some stored_row else None),
      db_fault = None, calls = []\<rparr>"

definition both_body :: jsval where
  \<comment> \<open>a body that carries the signature A under \<^verbatim>\<open>event.transaction[0]\<close> and B directly\<close>
  "both_body =
     JObj [(''event'', JObj [(''transaction'', JArr [canonical_body (JStr ''A'')])]),
           (''signature'', JStr ''B'')]"

section \<open>Properties\<close>

subsection \<open>Auxiliary facts\<close>

lemma make_timestamp_renderable:
  "renderable bt \<Longrightarrow> \<exists>ts. make_timestamp bt = Inr ts"
  by (auto simp: make_timestamp_def renderable_def toISOString_def Let_def
           split: option.splits prod.splits)

lemma make_timestamp_error:
  "make_timestamp bt = Inl e \<Longrightarrow> e = RangeError \<and> \<not> renderable bt"
  by (auto simp: make_timestamp_def renderable_def toISOString_def Let_def
           split: option.splits prod.splits if_splits)

lemma make_timestamp_null:
  "make_timestamp bt = Inr ts \<Longrightarrow> ts = None \<longleftrightarrow> bt = None \<or> bt = Some 0"
  by (auto simp: make_timestamp_def split: option.splits sum.splits if_splits)

lemma make_result_fields:
  "make_result sig pre post bt = Inr (Some r) \<Longrightarrow>
     signature r = sig \<and> preAmount r = pre \<and> postAmount r = post
     \<and> uiAmount r = js_sub post pre \<and> make_timestamp bt = Inr (timestamp r)"
  by (auto simp: make_result_def Let_def split: sum.splits)

lemma make_result_not_null: "make_result sig pre post bt \<noteq> Inr None"
  by (auto simp: make_result_def Let_def split: sum.splits)

lemma make_result_Inr:
  "make_timestamp bt = Inr ts \<Longrightarrow>
   make_result sig pre post bt =
     Inr (Some \<lparr>signature = sig, preAmount = pre, postAmount = post,
                uiAmount = js_sub post pre, timestamp = ts\<rparr>)"
  by (simp add: make_result_def)

lemma make_result_Inl:
  "make_result sig pre post bt = Inl e \<Longrightarrow> make_timestamp bt = Inl e"
  by (auto simp: make_result_def Let_def split: sum.splits)

lemma fetch_token:
  assumes "USDC_MINT ev = Some usdc" "SOLANA_ADDR ev = Some addr" "usdc \<noteq> []" "addr \<noteq> []"
    and "ledger w sig = Inr (Some tx)" "meta tx = Some m" "toUpperCase usdc \<noteq> ''SOL''"
  shows "fst (fetchAndProcessSolanaTransaction ev sig w) =
           make_result sig
             (amount_of (find_opt (matches usdc addr) (preTokenBalances m)))
             (amount_of (find_opt (matches usdc addr) (postTokenBalances m)))
             (blockTime tx)"
proof -
  have eq: "(\<lambda>b. mint b = usdc \<and> owner b = Some addr) = matches usdc addr"
    by (simp add: fun_eq_iff matches_def)
  show ?thesis
    using assms
    by (simp add: fetchAndProcessSolanaTransaction_def getParsedTransaction_def str_truthy_def
          Let_def eq)
qed

lemma process_token:
  assumes "USDC_MINT ev = Some usdc" "SOLANA_ADDR ev = Some addr" "usdc \<noteq> []" "addr \<noteq> []"
    and "ledger w sig = Inr (Some tx)" "meta tx = Some m"
  shows "fst (processTransaction ev sig w) =
           make_result sig
             (amount_of (find_opt (matches usdc addr) (preTokenBalances m)))
             (amount_of (find_opt (matches usdc addr) (postTokenBalances m)))
             (blockTime tx)"
proof -
  have eq: "(\<lambda>balance. mint balance = usdc
                \<and> (case owner balance of None \<Rightarrow> [] | Some x \<Rightarrow> x) = addr)
          = matches usdc addr"
    using assms(4) by (auto simp: fun_eq_iff matches_def split: option.splits)
  show ?thesis
    using assms
    by (simp add: processTransaction_def getParsedTransaction_def str_truthy_def Let_def
          or_empty_def eq)
qed

lemma fetch_sol:
  assumes "USDC_MINT ev = Some usdc" "SOLANA_ADDR ev = Some addr" "usdc \<noteq> []" "addr \<noteq> []"
    and "ledger w sig = Inr (Some tx)" "meta tx = Some m" "toUpperCase usdc = ''SOL''"
  shows "fst (fetchAndProcessSolanaTransaction ev sig w) =
           (if findIndex (\<lambda>acc. acc = addr) (accountKeys tx) \<noteq> - 1
            then make_result sig
                   (js_div (or_zero (preBalances m) (findIndex (\<lambda>acc. acc = addr) (accountKeys tx)))
                      LAMPORTS_PER_SOL)
                   (js_div (or_zero (postBalances m) (findIndex (\<lambda>acc. acc = addr) (accountKeys tx)))
                      LAMPORTS_PER_SOL)
                   (blockTime tx)
            else make_result sig (Fin 0) (Fin 0) (blockTime tx))"
  using assms
  by (simp add: fetchAndProcessSolanaTransaction_def getParsedTransaction_def str_truthy_def
        Let_def)

lemma fetch_outcome:
  "fst (fetchAndProcessSolanaTransaction ev sig w) = Inr None
   \<or> (\<exists>e. ledger w sig = Inl e \<and> fst (fetchAndProcessSolanaTransaction ev sig w) = Inl e)
   \<or> (\<exists>tx pre post. ledger w sig = Inr (Some tx)
         \<and> fst (fetchAndProcessSolanaTransaction ev sig w) = make_result sig pre post (blockTime tx))"
  by (auto simp: fetchAndProcessSolanaTransaction_def getParsedTransaction_def Let_def
           split: option.splits sum.splits)

lemma process_outcome:
  "fst (processTransaction ev sig w) = Inr None
   \<or> (\<exists>e. ledger w sig = Inl e \<and> fst (processTransaction ev sig w) = Inl e)
   \<or> (\<exists>tx pre post. ledger w sig = Inr (Some tx)
         \<and> fst (processTransaction ev sig w) = make_result sig pre post (blockTime tx))"
  by (auto simp: processTransaction_def getParsedTransaction_def Let_def
           split: option.splits sum.splits)

lemma fetch_result:
  "fst (fetchAndProcessSolanaTransaction ev sig w) = Inr (Some r) \<Longrightarrow>
     \<exists>tx pre post. ledger w sig = Inr (Some tx)
        \<and> make_result sig pre post (blockTime tx) = Inr (Some r)"
  using fetch_outcome [of ev sig w] by (elim disjE exE conjE) (simp, simp, metis)

lemma process_result:
  "fst (processTransaction ev sig w) = Inr (Some r) \<Longrightarrow>
     \<exists>tx pre post. ledger w sig = Inr (Some tx)
        \<and> make_result sig pre post (blockTime tx) = Inr (Some r)"
  using process_outcome [of ev sig w] by (elim disjE exE conjE) (simp, simp, metis)

lemma fetch_unset:
  "USDC_MINT ev = None \<or> USDC_MINT ev = Some [] \<or> SOLANA_ADDR ev = None \<or> SOLANA_ADDR ev = Some []
   \<Longrightarrow> fetchAndProcessSolanaTransaction ev sig w = (Inr None, w)"
  by (auto simp: fetchAndProcessSolanaTransaction_def str_truthy_def split: option.splits)

lemma process_unset:
  "USDC_MINT ev = None \<or> USDC_MINT ev = Some [] \<or> SOLANA_ADDR ev = None \<or> SOLANA_ADDR ev = Some []
   \<Longrightarrow> ledger w sig = Inr rec \<Longrightarrow> fst (processTransaction ev sig w) = Inr None"
  by (auto simp: processTransaction_def getParsedTransaction_def str_truthy_def or_empty_def
           split: option.splits)

lemma fetch_set:
  assumes "USDC_MINT ev = Some usdc" "SOLANA_ADDR ev = Some addr" "usdc \<noteq> []" "addr \<noteq> []"
    and "ledger w sig = Inr (Some tx)" "meta tx = Some m"
  shows "\<exists>pre post. fst (fetchAndProcessSolanaTransaction ev sig w)
                      = make_result sig pre post (blockTime tx)"
proof (cases "toUpperCase usdc = ''SOL''")
  case True
  show ?thesis unfolding fetch_sol [OF assms True] by (metis (full_types))
next
  case False
  show ?thesis unfolding fetch_token [OF assms False] by blast
qed

lemma find_opt_no_entry: "find_opt (matches usdc addr) bs = None \<longleftrightarrow> no_entry usdc addr bs"
  by (auto simp: find_opt_def no_entry_def find_None_iff split: option.splits)

lemma fetch_null: "ledger w sig = Inr None \<Longrightarrow> fst (fetchAndProcessSolanaTransaction ev sig w) = Inr None"
  by (auto simp: fetchAndProcessSolanaTransaction_def getParsedTransaction_def split: option.splits)

lemma process_null: "ledger w sig = Inr None \<Longrightarrow> fst (processTransaction ev sig w) = Inr None"
  by (auto simp: processTransaction_def getParsedTransaction_def split: option.splits)

lemma fetch_no_meta:
  "ledger w sig = Inr (Some tx) \<Longrightarrow> meta tx = None
     \<Longrightarrow> fst (fetchAndProcessSolanaTransaction ev sig w) = Inr None"
  by (auto simp: fetchAndProcessSolanaTransaction_def getParsedTransaction_def split: option.splits)

lemma process_no_meta:
  "ledger w sig = Inr (Some tx) \<Longrightarrow> meta tx = None \<Longrightarrow> fst (processTransaction ev sig w) = Inr None"
  by (auto simp: processTransaction_def getParsedTransaction_def split: option.splits)

lemma fetch_returns:
  assumes "ledger w sig = Inr rec" "\<forall>tx. rec = Some tx \<longrightarrow> renderable (blockTime tx)"
  shows "\<exists>out. fst (fetchAndProcessSolanaTransaction ev sig w) = Inr out"
  using fetch_outcome [of ev sig w] assms
  by (elim disjE exE conjE) (auto dest!: make_timestamp_renderable simp: make_result_Inr)

lemma process_returns:
  assumes "ledger w sig = Inr rec" "\<forall>tx. rec = Some tx \<longrightarrow> renderable (blockTime tx)"
  shows "\<exists>out. fst (processTransaction ev sig w) = Inr out"
  using process_outcome [of ev sig w] assms
  by (elim disjE exE conjE) (auto dest!: make_timestamp_renderable simp: make_result_Inr)

lemma fetch_raises:
  assumes "ledger w sig = Inr rec" "fst (fetchAndProcessSolanaTransaction ev sig w) = Inl e"
  shows "e = RangeError"
  using fetch_outcome [of ev sig w] assms
  by (elim disjE exE conjE) (auto dest!: make_result_Inl make_timestamp_error)

lemma process_raises:
  assumes "ledger w sig = Inr rec" "fst (processTransaction ev sig w) = Inl e"
  shows "e = RangeError"
  using process_outcome [of ev sig w] assms
  by (elim disjE exE conjE) (auto dest!: make_result_Inl make_timestamp_error)



lemma fl_zero: "fl 0 = Fin 0"
  by (simp add: fl_def)


lemma fl_one: "fl 1 = Fin 1"
  by code_simp





lemma round_coins_bound:
  "js_div (Fin (9007199254740993 * 1000000000)) LAMPORTS_PER_SOL = Fin 9007199254740992"
  by code_simp


lemma fl_not_NaN: "fl q \<noteq> NaN"
  by (simp add: fl_def Let_def)

lemma js_neg_NaN: "js_neg x = NaN \<longleftrightarrow> x = NaN"
  by (cases x) auto

lemma not_digit_dot: "\<not> is_digit CHR ''.''"
  by (simp add: is_digit_def)

lemma unsigned_literal_NaN:
  "unsigned_literal u = NaN \<longleftrightarrow>
     \<not> (take 8 u = ''Infinity'' \<or> (u \<noteq> [] \<and> is_digit (hd u))
        \<or> (u \<noteq> [] \<and> hd u = CHR ''.'' \<and> tl u \<noteq> [] \<and> is_digit (hd (tl u))))"
proof (cases "take 8 u = ''Infinity''")
  case True
  then show ?thesis by (simp add: unsigned_literal_def)
next
  case False
  show ?thesis
  proof (cases u)
    case Nil
    then show ?thesis by (simp add: unsigned_literal_def)
  next
    case (Cons c r)
    show ?thesis
    proof (cases "is_digit c")
      case True
      with Cons False show ?thesis
        by (simp add: unsigned_literal_def Let_def fl_not_NaN)
    next
      case nd: False
      show ?thesis
      proof (cases "c = CHR ''.''")
        case True
        with Cons False nd show ?thesis
          by (cases r) (auto simp: unsigned_literal_def Let_def fl_not_NaN)
      next
        case False
        with Cons \<open>take 8 u \<noteq> ''Infinity''\<close> nd show ?thesis
          by (simp add: unsigned_literal_def Let_def)
      qed
    qed
  qed
qed

lemma signed_literal_NaN:
  "(case t of
      [] \<Rightarrow> NaN
    | c # r \<Rightarrow>
        if c = CHR ''-'' then js_neg (unsigned_literal r)
        else if c = CHR ''+'' then unsigned_literal r
        else unsigned_literal (c # r)) = NaN
   \<longleftrightarrow> \<not> (let u = (if t \<noteq> [] \<and> (hd t = CHR ''+'' \<or> hd t = CHR ''-'') then tl t else t)
          in take 8 u = ''Infinity'' \<or> (u \<noteq> [] \<and> is_digit (hd u))
             \<or> (u \<noteq> [] \<and> hd u = CHR ''.'' \<and> tl u \<noteq> [] \<and> is_digit (hd (tl u))))"
proof (cases t)
  case Nil
  then show ?thesis by simp
next
  case (Cons c r)
  then show ?thesis
    by (simp add: Let_def js_neg_NaN unsigned_literal_NaN del: take_Suc_Cons)
qed

lemma parseFloat_NaN: "parseFloat s = NaN \<longleftrightarrow> \<not> numeric_prefix s"
  unfolding parseFloat_def numeric_prefix_def
  using signed_literal_NaN [of "dropWhile is_js_space s"] by (simp add: Let_def)

lemma amount_of_parses: "parses_to (uiAmountString (uiTokenAmount tb)) (amount_of (Some tb))"
  by (auto simp: parses_to_def amount_of_def str_truthy_def parseFloat_NaN)

lemma get_transaction_calls:
  "calls (snd (handleGetTransaction ev sig w)) = calls w
   \<or> calls (snd (handleGetTransaction ev sig w)) = calls w @ [LedgerFetch sig]"
  by (auto simp: handleGetTransaction_def fetchAndProcessSolanaTransaction_def
        getParsedTransaction_def Let_def split: option.splits sum.splits)

lemma webhook_signature_canonical:
  "truthy s \<Longrightarrow> webhook_signature (canonical_body s) = Inr s"
  by (simp add: webhook_signature_def canonical_body_def array_signature_def event_signature_def
        direct_signature_def dot_def opt_dot_def opt_elem0_def)

lemma event_signature_event_body: "event_signature (event_body s) = Inr s"
  by (cases s)
     (simp_all add: event_signature_def event_body_def canonical_body_def dot_def opt_dot_def
        opt_elem0_def)

lemma handle_webhook_uses:
  "webhook_signature body = Inr s \<Longrightarrow> truthy s \<Longrightarrow>
   handleWebhookPost ev (Some body) w = handleWebhookPost ev (Some (canonical_body s)) w"
  by (simp add: handleWebhookPost_def webhook_signature_canonical)

lemma array_throws_no_other_shape:
  "array_signature body = Inl e \<Longrightarrow>
     event_signature body = Inr JUndefined \<and> direct_signature body = Inr JUndefined"
  by (auto simp: array_signature_def event_signature_def direct_signature_def dot_def opt_dot_def
        opt_elem0_def split: jsval.splits list.splits)

lemma event_throws_direct_throws:
  "event_signature body = Inl e \<Longrightarrow> direct_signature body = Inl e"
  by (auto simp: event_signature_def direct_signature_def dot_def split: if_splits)

subsection \<open>The claims\<close>

text \<open>
  C1. Whenever an extractor returns a result, in either variant, the result's
  \<open>uiAmount\<close> (the delta) is the JavaScript difference of its \<open>postAmount\<close> and its
  \<open>preAmount\<close>: the field is computed from the two others and from nothing else.
\<close>

theorem delta_is_post_minus_pre:
  "(fst (fetchAndProcessSolanaTransaction ev sig w) = Inr (Some r)
      \<longrightarrow> uiAmount r = js_sub (postAmount r) (preAmount r))
   \<and> (fst (processTransaction ev sig w) = Inr (Some r')
      \<longrightarrow> uiAmount r' = js_sub (postAmount r') (preAmount r'))"
proof (intro conjI impI)
  assume a: "fst (fetchAndProcessSolanaTransaction ev sig w) = Inr (Some r)"
  then show "uiAmount r = js_sub (postAmount r) (preAmount r)"
    by (auto dest!: fetch_result make_result_fields)
next
  assume a: "fst (processTransaction ev sig w) = Inr (Some r')"
  then show "uiAmount r' = js_sub (postAmount r') (preAmount r')"
    by (auto dest!: process_result make_result_fields)
qed

theorem delta_is_post_minus_pre_witness:
  "fst (fetchAndProcessSolanaTransaction watch_env ''S1''
          (world_with (Some (transfer_tx ''10.0'' ''10.01'' (Some 1700000000)))))
     = Inr (Some \<lparr>signature = ''S1'', preAmount = Fin 10,
                  postAmount = Fin (5635129033747333 / 562949953421312),
                  uiAmount = Fin (5629499534213 / 562949953421312),
                  timestamp = Some ''2023-11-14T22:13:20.000Z''\<rparr>)
   \<and> fst (processTransaction watch_env ''S1''
          (world_with (Some (transfer_tx ''10.0'' ''10.01'' (Some 1700000000)))))
     = Inr (Some \<lparr>signature = ''S1'', preAmount = Fin 10,
                  postAmount = Fin (5635129033747333 / 562949953421312),
                  uiAmount = Fin (5629499534213 / 562949953421312),
                  timestamp = Some ''2023-11-14T22:13:20.000Z''\<rparr>)
   \<and> Fin (5629499534213 / 562949953421312)
     = js_sub (Fin (5635129033747333 / 562949953421312)) (Fin 10)"
proof -
  let ?w = "world_with (Some (transfer_tx ''10.0'' ''10.01'' (Some 1700000000))) :: string world"
  let ?r = "\<lparr>signature = ''S1'', preAmount = Fin 10,
             postAmount = Fin (5635129033747333 / 562949953421312),
             uiAmount = Fin (5629499534213 / 562949953421312),
             timestamp = Some ''2023-11-14T22:13:20.000Z''\<rparr>"
  have a: "fst (fetchAndProcessSolanaTransaction watch_env ''S1'' ?w) = Inr (Some ?r)"
    by code_simp
  have b: "fst (processTransaction watch_env ''S1'' ?w) = Inr (Some ?r)"
    by code_simp
  from delta_is_post_minus_pre [of watch_env "''S1''" ?w ?r ?r] a b
  have "uiAmount ?r = js_sub (postAmount ?r) (preAmount ?r)" by blast
  then have "Fin (5629499534213 / 562949953421312)
     = js_sub (Fin (5635129033747333 / 562949953421312)) (Fin 10)"
    by (simp del: js_sub.simps)
  with a b show ?thesis by blast
qed

text \<open>
  C2. The serverless query is specified to look the signature up in the store first and
  to fetch from the ledger only when no row is stored. \<^verbatim>\<open>handleGetTransaction\<close> does
  not do so: with a row stored for the signature S1 (which \<^verbatim>\<open>fetchTransactionFromDb\<close>
  returns, with the delta 5), it makes one call, to the ledger client, never reads the
  store, and answers with the ledger's delta and the source \<^verbatim>\<open>live_solana_api\<close>.
\<close>

theorem get_transaction_ignores_store:
  "fst (fetchTransactionFromDb ''S1'' stored_world) = (Some stored_row, None)
   \<and> ui_amount stored_row = Fin 5
   \<and> fst (handleGetTransaction watch_env ''S1'' stored_world)
       = Inr \<lparr>status = 200,
              payload = TransactionView ''S1'' (Fin (1 / 2)) (Some ''2023-11-14T22:13:20.000Z'')
                          (Some ''live_solana_api'')\<rparr>
   \<and> calls (snd (handleGetTransaction watch_env ''S1'' stored_world)) = [LedgerFetch ''S1'']"
  by code_simp

text \<open>
  C3 (as amended). In token mode, the amount of a side is read from the first entry of
  that side whose mint and owner match the criteria: it is zero when the entry's amount
  string is absent or empty, and what \<^verbatim>\<open>parseFloat\<close> reads from the string otherwise.
  That is \<^verbatim>\<open>NaN\<close> exactly when the string, after leading white space and an optional
  sign, starts neither with \<^verbatim>\<open>Infinity\<close>, nor with a digit, nor with a dot and a
  digit. Parsing raises no error: whenever one of the extractors returns a result, the
  other returns the same, with these amounts.
\<close>

theorem amount_parsing:
  assumes "USDC_MINT ev = Some usdc" "usdc \<noteq> []" "toUpperCase usdc \<noteq> ''SOL''"
    and "SOLANA_ADDR ev = Some addr" "addr \<noteq> []"
    and "ledger w sig = Inr (Some tx)" "meta tx = Some m"
    and "fst (fetchAndProcessSolanaTransaction ev sig w) = Inr (Some r)
         \<or> fst (processTransaction ev sig w) = Inr (Some r)"
  shows "fst (fetchAndProcessSolanaTransaction ev sig w) = Inr (Some r)
       \<and> fst (processTransaction ev sig w) = Inr (Some r)
       \<and> (\<forall>tb. find_opt (matches usdc addr) (preTokenBalances m) = Some tb
              \<longrightarrow> parses_to (uiAmountString (uiTokenAmount tb)) (preAmount r))
       \<and> (\<forall>tb. find_opt (matches usdc addr) (postTokenBalances m) = Some tb
              \<longrightarrow> parses_to (uiAmountString (uiTokenAmount tb)) (postAmount r))"
proof -
  let ?mk = "make_result sig
               (amount_of (find_opt (matches usdc addr) (preTokenBalances m)))
               (amount_of (find_opt (matches usdc addr) (postTokenBalances m)))
               (blockTime tx)"
  have a: "fst (fetchAndProcessSolanaTransaction ev sig w) = ?mk"
    by (rule fetch_token [OF assms(1,4,2,5,6,7,3)])
  have b: "fst (processTransaction ev sig w) = ?mk"
    by (rule process_token [OF assms(1,4,2,5,6,7)])
  from assms(8) a b have mk: "?mk = Inr (Some r)" by auto
  from make_result_fields [OF mk]
  have "preAmount r = amount_of (find_opt (matches usdc addr) (preTokenBalances m))"
    "postAmount r = amount_of (find_opt (matches usdc addr) (postTokenBalances m))"
    by simp_all
  then show ?thesis
    using a b mk by (auto simp: amount_of_parses)
qed

theorem malformed_amount_counterexample:
  "fst (fetchAndProcessSolanaTransaction watch_env ''S1''
          (world_with (Some (transfer_tx ''abc'' ''10.5'' None))))
     = Inr (Some \<lparr>signature = ''S1'', preAmount = NaN, postAmount = Fin (21 / 2), uiAmount = NaN,
                  timestamp = None\<rparr>)
   \<and> fst (processTransaction watch_env ''S1''
          (world_with (Some (transfer_tx ''abc'' ''10.5'' None))))
     = Inr (Some \<lparr>signature = ''S1'', preAmount = NaN, postAmount = Fin (21 / 2), uiAmount = NaN,
                  timestamp = None\<rparr>)"
  by code_simp

theorem amount_parsing_witness:
  "fst (fetchAndProcessSolanaTransaction watch_env ''S1''
          (world_with (Some (transfer_tx ''n/a'' [] None))))
     = Inr (Some \<lparr>signature = ''S1'', preAmount = NaN, postAmount = Fin 0, uiAmount = NaN,
                  timestamp = None\<rparr>)
   \<and> fst (processTransaction watch_env ''S1''
          (world_with (Some (transfer_tx ''n/a'' [] None))))
     = Inr (Some \<lparr>signature = ''S1'', preAmount = NaN, postAmount = Fin 0, uiAmount = NaN,
                  timestamp = None\<rparr>)
   \<and> parses_to (Some ''n/a'') NaN \<and> parses_to (Some []) (Fin 0)"
proof -
  let ?tx = "transfer_tx ''n/a'' [] None"
  let ?w = "world_with (Some ?tx) :: string world"
  let ?m = "\<lparr>preBalances = [Fin 5000000000, Fin 1000000000],
             postBalances = [Fin 4999995000, Fin 3000000000],
             preTokenBalances = Some [token_entry (Some ''n/a'')],
             postTokenBalances = Some [token_entry (Some [])]\<rparr>"
  let ?r = "\<lparr>signature = ''S1'', preAmount = NaN, postAmount = Fin 0, uiAmount = NaN,
             timestamp = None\<rparr>"
  have h: "USDC_MINT watch_env = Some ''USDC_MINT''" "''USDC_MINT'' \<noteq> []"
    "toUpperCase ''USDC_MINT'' \<noteq> ''SOL''" "SOLANA_ADDR watch_env = Some ''SOLANA_ADDR''"
    "''SOLANA_ADDR'' \<noteq> []" "ledger ?w ''S1'' = Inr (Some ?tx)" "meta ?tx = Some ?m"
    by (simp_all add: watch_env_def toUpperCase_def world_with_def transfer_tx_def)
  have a: "fst (fetchAndProcessSolanaTransaction watch_env ''S1'' ?w) = Inr (Some ?r)"
    by code_simp
  have f: "find_opt (matches ''USDC_MINT'' ''SOLANA_ADDR'') (preTokenBalances ?m)
             = Some (token_entry (Some ''n/a''))"
    "find_opt (matches ''USDC_MINT'' ''SOLANA_ADDR'') (postTokenBalances ?m)
             = Some (token_entry (Some []))"
    by (simp_all add: find_opt_def matches_def token_entry_def)
  from amount_parsing [OF h disjI1, OF a] f
  have "fst (processTransaction watch_env ''S1'' ?w) = Inr (Some ?r)"
    "parses_to (uiAmountString (uiTokenAmount (token_entry (Some ''n/a'')))) (preAmount ?r)"
    "parses_to (uiAmountString (uiTokenAmount (token_entry (Some [])))) (postAmount ?r)"
    by blast+
  with a show ?thesis by (simp add: token_entry_def)
qed

text \<open>
  C4 (as amended). When the ledger client answers, and the asset selector does not
  upper-case to \<^verbatim>\<open>SOL\<close>, the two extractors produce the same outcome: the same result,
  "not applicable" in both, or the same exception in both. (For a selector that
  upper-cases to \<^verbatim>\<open>SOL\<close> only the serverless variant reads native balances; the
  long-running server looks for a token mint of that name.)
\<close>

theorem variants_agree_outside_native_mode:
  assumes "ledger w sig = Inr rec" "toUpperCase (or_empty (USDC_MINT ev)) \<noteq> ''SOL''"
  shows "fst (fetchAndProcessSolanaTransaction ev sig w) = fst (processTransaction ev sig w)"
proof (cases "USDC_MINT ev = None \<or> USDC_MINT ev = Some [] \<or> SOLANA_ADDR ev = None
                \<or> SOLANA_ADDR ev = Some []")
  case True
  then show ?thesis
    using assms(1) by (simp add: fetch_unset process_unset)
next
  case False
  then obtain usdc addr where e: "USDC_MINT ev = Some usdc" "SOLANA_ADDR ev = Some addr"
    "usdc \<noteq> []" "addr \<noteq> []" by auto
  with assms(2) have ns: "toUpperCase usdc \<noteq> ''SOL''" by (simp add: or_empty_def)
  show ?thesis
  proof (cases rec)
    case None
    with assms(1) show ?thesis by (simp add: fetch_null process_null)
  next
    case (Some tx)
    show ?thesis
    proof (cases "meta tx")
      case None
      with Some assms(1) show ?thesis by (simp add: fetch_no_meta process_no_meta)
    next
      case (Some m)
      with \<open>rec = Some tx\<close> assms(1) have l: "ledger w sig = Inr (Some tx)" by simp
      show ?thesis
        by (simp add: fetch_token [OF e l Some ns] process_token [OF e l Some])
    qed
  qed
qed

theorem variants_differ_counterexample:
  "fst (fetchAndProcessSolanaTransaction sol_env ''S1''
          (world_with (Some (transfer_tx ''10.0'' ''10.5'' (Some 1700000000)))))
     = Inr (Some \<lparr>signature = ''S1'', preAmount = Fin 1, postAmount = Fin 3, uiAmount = Fin 2,
                  timestamp = Some ''2023-11-14T22:13:20.000Z''\<rparr>)
   \<and> fst (processTransaction sol_env ''S1''
          (world_with (Some (transfer_tx ''10.0'' ''10.5'' (Some 1700000000)))))
     = Inr (Some \<lparr>signature = ''S1'', preAmount = Fin 0, postAmount = Fin 0, uiAmount = Fin 0,
                  timestamp = Some ''2023-11-14T22:13:20.000Z''\<rparr>)"
  by code_simp

theorem variants_agree_outside_native_mode_witness:
  "toUpperCase (or_empty (USDC_MINT watch_env)) \<noteq> ''SOL''
   \<and> fst (fetchAndProcessSolanaTransaction watch_env ''S1''
            (world_with (Some (transfer_tx ''10.0'' ''10.5'' (Some 1700000000)))))
       = fst (processTransaction watch_env ''S1''
            (world_with (Some (transfer_tx ''10.0'' ''10.5'' (Some 1700000000)))))
   \<and> fst (processTransaction watch_env ''S1''
            (world_with (Some (transfer_tx ''10.0'' ''10.5'' (Some 1700000000)))))
       = Inr (Some \<lparr>signature = ''S1'', preAmount = Fin 10, postAmount = Fin (21 / 2),
                    uiAmount = Fin (1 / 2), timestamp = Some ''2023-11-14T22:13:20.000Z''\<rparr>)"
proof -
  let ?w = "world_with (Some (transfer_tx ''10.0'' ''10.5'' (Some 1700000000))) :: string world"
  have l: "ledger ?w ''S1'' = Inr (Some (transfer_tx ''10.0'' ''10.5'' (Some 1700000000)))"
    by (simp add: world_with_def)
  have n: "toUpperCase (or_empty (USDC_MINT watch_env)) \<noteq> ''SOL''"
    by (simp add: watch_env_def or_empty_def toUpperCase_def)
  have p: "fst (processTransaction watch_env ''S1'' ?w)
       = Inr (Some \<lparr>signature = ''S1'', preAmount = Fin 10, postAmount = Fin (21 / 2),
                    uiAmount = Fin (1 / 2), timestamp = Some ''2023-11-14T22:13:20.000Z''\<rparr>)"
    by code_simp
  from variants_agree_outside_native_mode [OF l n] n p show ?thesis by blast
qed

text \<open>
  C5 (as amended). When the ledger client answers, both extractors return "not
  applicable" for a null record, for a record without metadata, for an unset (or empty)
  watched address and for an unset (or empty) asset selector. They return normally
  whenever the record's block time is absent or within the range of a \<^verbatim>\<open>Date\<close>, and
  the only exception they raise is the \<^verbatim>\<open>RangeError\<close> of \<^verbatim>\<open>toISOString\<close> on a block
  time outside that range.
\<close>

theorem not_applicable_inputs_and_only_raise:
  assumes "ledger w sig = Inr rec"
  shows "(rec = None \<longrightarrow> fst (fetchAndProcessSolanaTransaction ev sig w) = Inr None
                          \<and> fst (processTransaction ev sig w) = Inr None)
       \<and> ((\<exists>tx. rec = Some tx \<and> meta tx = None)
            \<longrightarrow> fst (fetchAndProcessSolanaTransaction ev sig w) = Inr None
                \<and> fst (processTransaction ev sig w) = Inr None)
       \<and> (SOLANA_ADDR ev = None \<or> SOLANA_ADDR ev = Some []
            \<longrightarrow> fst (fetchAndProcessSolanaTransaction ev sig w) = Inr None
                \<and> fst (processTransaction ev sig w) = Inr None)
       \<and> (USDC_MINT ev = None \<or> USDC_MINT ev = Some []
            \<longrightarrow> fst (fetchAndProcessSolanaTransaction ev sig w) = Inr None
                \<and> fst (processTransaction ev sig w) = Inr None)
       \<and> ((\<forall>tx. rec = Some tx \<longrightarrow> renderable (blockTime tx))
            \<longrightarrow> (\<exists>out. fst (fetchAndProcessSolanaTransaction ev sig w) = Inr out)
                \<and> (\<exists>out. fst (processTransaction ev sig w) = Inr out))
       \<and> (fst (fetchAndProcessSolanaTransaction ev sig w) = Inl e
            \<or> fst (processTransaction ev sig w) = Inl e \<longrightarrow> e = RangeError)"
proof (intro conjI impI)
  assume "rec = None"
  with assms show "fst (fetchAndProcessSolanaTransaction ev sig w) = Inr None"
    and "fst (processTransaction ev sig w) = Inr None"
    by (simp_all add: fetch_null process_null)
next
  assume "\<exists>tx. rec = Some tx \<and> meta tx = None"
  with assms show "fst (fetchAndProcessSolanaTransaction ev sig w) = Inr None"
    and "fst (processTransaction ev sig w) = Inr None"
    by (auto simp: fetch_no_meta process_no_meta)
next
  assume "SOLANA_ADDR ev = None \<or> SOLANA_ADDR ev = Some []"
  with assms show "fst (fetchAndProcessSolanaTransaction ev sig w) = Inr None"
    and "fst (processTransaction ev sig w) = Inr None"
    by (auto simp: fetch_unset process_unset)
next
  assume "USDC_MINT ev = None \<or> USDC_MINT ev = Some []"
  with assms show "fst (fetchAndProcessSolanaTransaction ev sig w) = Inr None"
    and "fst (processTransaction ev sig w) = Inr None"
    by (auto simp: fetch_unset process_unset)
next
  assume "\<forall>tx. rec = Some tx \<longrightarrow> renderable (blockTime tx)"
  with assms show "\<exists>out. fst (fetchAndProcessSolanaTransaction ev sig w) = Inr out"
    and "\<exists>out. fst (processTransaction ev sig w) = Inr out"
    by (rule fetch_returns, rule process_returns)
next
  assume "fst (fetchAndProcessSolanaTransaction ev sig w) = Inl e
            \<or> fst (processTransaction ev sig w) = Inl e"
  with assms show "e = RangeError"
    by (auto dest: fetch_raises process_raises)
qed

theorem extractor_raises_counterexample:
  "fst (fetchAndProcessSolanaTransaction watch_env ''S1''
          (world_with (Some (transfer_tx ''10.0'' ''10.5'' (Some 8640000000001)))))
     = Inl RangeError
   \<and> fst (processTransaction watch_env ''S1''
          (world_with (Some (transfer_tx ''10.0'' ''10.5'' (Some 8640000000001)))))
     = Inl RangeError"
  by code_simp

theorem not_applicable_inputs_and_only_raise_witness:
  "fst (fetchAndProcessSolanaTransaction watch_env ''S1'' (world_with None)) = Inr None
   \<and> fst (processTransaction watch_env ''S1'' (world_with None)) = Inr None
   \<and> fst (fetchAndProcessSolanaTransaction watch_env ''S1''
            (world_with (Some \<lparr>accountKeys = [], meta = None, blockTime = None\<rparr>))) = Inr None
   \<and> fst (processTransaction watch_env ''S1''
            (world_with (Some \<lparr>accountKeys = [], meta = None, blockTime = None\<rparr>))) = Inr None
   \<and> fst (fetchAndProcessSolanaTransaction \<lparr>USDC_MINT = Some ''USDC_MINT'', SOLANA_ADDR = None\<rparr>
            ''S1'' (world_with (Some (foreign_tx None)))) = Inr None
   \<and> fst (processTransaction \<lparr>USDC_MINT = None, SOLANA_ADDR = Some ''SOLANA_ADDR''\<rparr>
            ''S1'' (world_with (Some (foreign_tx None)))) = Inr None
   \<and> (\<exists>out. fst (fetchAndProcessSolanaTransaction watch_env ''S1''
                   (world_with (Some (foreign_tx (Some 8640000000000)))))
               = Inr out)"
proof -
  have l: "ledger (world_with rec :: string world) ''S1'' = Inr rec" for rec
    by (simp add: world_with_def)
  have r: "\<forall>tx. Some (foreign_tx (Some 8640000000000)) = Some tx \<longrightarrow> renderable (blockTime tx)"
    by (simp add: foreign_tx_def renderable_def)
  show ?thesis
    using not_applicable_inputs_and_only_raise [OF l, of None watch_env]
      not_applicable_inputs_and_only_raise
        [OF l, of "Some \<lparr>accountKeys = [], meta = None, blockTime = None\<rparr>" watch_env]
      not_applicable_inputs_and_only_raise
        [OF l, of "Some (foreign_tx None)" "\<lparr>USDC_MINT = Some ''USDC_MINT'', SOLANA_ADDR = None\<rparr>"]
      not_applicable_inputs_and_only_raise
        [OF l, of "Some (foreign_tx None)" "\<lparr>USDC_MINT = None, SOLANA_ADDR = Some ''SOLANA_ADDR''\<rparr>"]
      not_applicable_inputs_and_only_raise [OF l, of "Some (foreign_tx (Some 8640000000000))" watch_env]
      r
    by simp
qed

text \<open>
  C6 (as amended). In token mode the amount of each side is read from the first entry
  of that side's own list whose mint is the selector and whose owner is the watched
  address, and is zero for a side without such an entry. When the record's block time is
  absent or within the range of a \<^verbatim>\<open>Date\<close>, both extractors return this result; with
  no such entry on either side it has \<open>preAmount\<close> 0, \<open>postAmount\<close> 0 and delta 0.
\<close>

theorem token_mode_scans:
  assumes "USDC_MINT ev = Some usdc" "usdc \<noteq> []" "toUpperCase usdc \<noteq> ''SOL''"
    and "SOLANA_ADDR ev = Some addr" "addr \<noteq> []"
    and "ledger w sig = Inr (Some tx)" "meta tx = Some m" "renderable (blockTime tx)"
  shows "\<exists>r. fst (fetchAndProcessSolanaTransaction ev sig w) = Inr (Some r)
            \<and> fst (processTransaction ev sig w) = Inr (Some r)
            \<and> preAmount r = amount_of (find_opt (matches usdc addr) (preTokenBalances m))
            \<and> postAmount r = amount_of (find_opt (matches usdc addr) (postTokenBalances m))
            \<and> (no_entry usdc addr (preTokenBalances m) \<longrightarrow> preAmount r = Fin 0)
            \<and> (no_entry usdc addr (postTokenBalances m) \<longrightarrow> postAmount r = Fin 0)
            \<and> (no_entry usdc addr (preTokenBalances m) \<and> no_entry usdc addr (postTokenBalances m)
                 \<longrightarrow> uiAmount r = Fin 0)"
proof -
  from assms(8) obtain ts where ts: "make_timestamp (blockTime tx) = Inr ts"
    using make_timestamp_renderable by blast
  let ?pre = "amount_of (find_opt (matches usdc addr) (preTokenBalances m))"
  let ?post = "amount_of (find_opt (matches usdc addr) (postTokenBalances m))"
  let ?r = "\<lparr>signature = sig, preAmount = ?pre, postAmount = ?post,
             uiAmount = js_sub ?post ?pre, timestamp = ts\<rparr>"
  have a: "fst (fetchAndProcessSolanaTransaction ev sig w) = Inr (Some ?r)"
    using fetch_token [OF assms(1,4,2,5,6,7,3)] by (simp add: make_result_Inr [OF ts])
  have b: "fst (processTransaction ev sig w) = Inr (Some ?r)"
    using process_token [OF assms(1,4,2,5,6,7)] by (simp add: make_result_Inr [OF ts])
  have z: "no_entry usdc addr bs \<Longrightarrow> amount_of (find_opt (matches usdc addr) bs) = Fin 0" for bs
    by (simp add: find_opt_no_entry [symmetric] amount_of_def)
  show ?thesis
    by (rule exI [of _ ?r]) (simp add: a b z fl_zero)
qed

theorem token_mode_raises_counterexample:
  "no_entry ''USDC_MINT'' ''SOLANA_ADDR''
     (preTokenBalances (the (meta (foreign_tx (Some 10000000000000)))))
   \<and> no_entry ''USDC_MINT'' ''SOLANA_ADDR''
     (postTokenBalances (the (meta (foreign_tx (Some 10000000000000)))))
   \<and> fst (fetchAndProcessSolanaTransaction watch_env ''S1''
          (world_with (Some (foreign_tx (Some 10000000000000))))) = Inl RangeError
   \<and> fst (processTransaction watch_env ''S1''
          (world_with (Some (foreign_tx (Some 10000000000000))))) = Inl RangeError"
proof -
  have "fst (fetchAndProcessSolanaTransaction watch_env ''S1''
          (world_with (Some (foreign_tx (Some 10000000000000))))) = Inl RangeError
   \<and> fst (processTransaction watch_env ''S1''
          (world_with (Some (foreign_tx (Some 10000000000000))))) = Inl RangeError"
    by code_simp
  then show ?thesis by (simp add: no_entry_def foreign_tx_def)
qed

theorem token_mode_scans_witness:
  "fst (fetchAndProcessSolanaTransaction watch_env ''S1''
          (world_with (Some (foreign_tx (Some 1700000000)))))
     = Inr (Some \<lparr>signature = ''S1'', preAmount = Fin 0, postAmount = Fin 0, uiAmount = Fin 0,
                  timestamp = Some ''2023-11-14T22:13:20.000Z''\<rparr>)
   \<and> fst (processTransaction watch_env ''S1''
          (world_with (Some (foreign_tx (Some 1700000000)))))
     = Inr (Some \<lparr>signature = ''S1'', preAmount = Fin 0, postAmount = Fin 0, uiAmount = Fin 0,
                  timestamp = Some ''2023-11-14T22:13:20.000Z''\<rparr>)"
proof -
  let ?m = "\<lparr>preBalances = [Fin 5000000000, Fin 0],
             postBalances = [Fin 3999995000, Fin 1000000000],
             preTokenBalances = Some [], postTokenBalances = None\<rparr>"
  let ?w = "world_with (Some (foreign_tx (Some 1700000000))) :: string world"
  have ts: "make_timestamp (Some 1700000000) = Inr (Some ''2023-11-14T22:13:20.000Z'')"
    by code_simp
  have h: "USDC_MINT watch_env = Some ''USDC_MINT''" "''USDC_MINT'' \<noteq> []"
    "toUpperCase ''USDC_MINT'' \<noteq> ''SOL''" "SOLANA_ADDR watch_env = Some ''SOLANA_ADDR''"
    "''SOLANA_ADDR'' \<noteq> []" "ledger ?w ''S1'' = Inr (Some (foreign_tx (Some 1700000000)))"
    "meta (foreign_tx (Some 1700000000)) = Some ?m"
    "renderable (blockTime (foreign_tx (Some 1700000000)))"
    by (simp_all add: watch_env_def toUpperCase_def world_with_def foreign_tx_def renderable_def)
  have n: "no_entry ''USDC_MINT'' ''SOLANA_ADDR'' (preTokenBalances ?m)"
    "no_entry ''USDC_MINT'' ''SOLANA_ADDR'' (postTokenBalances ?m)"
    by (simp_all add: no_entry_def)
  from token_mode_scans [OF h] n obtain r
    where r: "fst (fetchAndProcessSolanaTransaction watch_env ''S1'' ?w) = Inr (Some r)"
      "fst (processTransaction watch_env ''S1'' ?w) = Inr (Some r)"
      "preAmount r = Fin 0" "postAmount r = Fin 0" "uiAmount r = Fin 0"
    by auto
  from fetch_result [OF r(1)] h(6) obtain pre post
    where "make_result ''S1'' pre post (blockTime (foreign_tx (Some 1700000000))) = Inr (Some r)"
    by auto
  from make_result_fields [OF this] have "signature r = ''S1''"
    "timestamp r = Some ''2023-11-14T22:13:20.000Z''"
    by (simp_all add: foreign_tx_def ts)
  with r have "r = \<lparr>signature = ''S1'', preAmount = Fin 0, postAmount = Fin 0, uiAmount = Fin 0,
                  timestamp = Some ''2023-11-14T22:13:20.000Z''\<rparr>"
    by simp
  with r(1,2) show ?thesis by simp
qed




text \<open>
  C8 (as amended). The serverless webhook handler tries three readings of the parsed
  body in order: the \<^verbatim>\<open>signature\<close> of the first element of a non-empty array, the
  \<^verbatim>\<open>signature\<close> of \<^verbatim>\<open>event.transaction[0]\<close>, and the body's own \<^verbatim>\<open>signature\<close>. The
  first reading that is truthy is the signature it uses (it then behaves exactly as on
  the body \<^verbatim>\<open>{"signature": s}\<close>), whatever the later readings give; when no reading is
  truthy, or the body is not valid JSON, it answers 400 and calls neither the ledger
  nor the store. The long-running server's handler tries the second reading only, and
  answers 400 without any call when that one is not truthy.
\<close>

theorem webhook_shape_priority:
  "(array_signature body = Inr s \<and> truthy s
      \<longrightarrow> webhook_signature body = Inr s
          \<and> handleWebhookPost ev (Some body) w = handleWebhookPost ev (Some (canonical_body s)) w)
   \<and> (\<not> (\<exists>s1. array_signature body = Inr s1 \<and> truthy s1) \<and> event_signature body = Inr s \<and> truthy s
      \<longrightarrow> webhook_signature body = Inr s
          \<and> handleWebhookPost ev (Some body) w = handleWebhookPost ev (Some (canonical_body s)) w)
   \<and> (\<not> (\<exists>s1. array_signature body = Inr s1 \<and> truthy s1)
       \<and> \<not> (\<exists>s2. event_signature body = Inr s2 \<and> truthy s2)
       \<and> direct_signature body = Inr s \<and> truthy s
      \<longrightarrow> webhook_signature body = Inr s
          \<and> handleWebhookPost ev (Some body) w = handleWebhookPost ev (Some (canonical_body s)) w)
   \<and> (\<not> (\<exists>s1. array_signature body = Inr s1 \<and> truthy s1)
       \<and> \<not> (\<exists>s2. event_signature body = Inr s2 \<and> truthy s2)
       \<and> \<not> (\<exists>s3. direct_signature body = Inr s3 \<and> truthy s3)
      \<longrightarrow> (\<exists>resp. handleWebhookPost ev (Some body) w = (Inr resp, w) \<and> status resp = 400))
   \<and> (\<exists>resp. handleWebhookPost ev None w = (Inr resp, w) \<and> status resp = 400)
   \<and> (event_signature body = Inr s \<and> truthy s
      \<longrightarrow> api_webhook ev body w = api_webhook ev (event_body s) w)
   \<and> (event_signature body = Inr s \<and> \<not> truthy s
      \<longrightarrow> api_webhook ev body w = (Inr \<lparr>status = 400, payload = NoPayload\<rparr>, w))"
proof (intro conjI impI)
  assume a: "array_signature body = Inr s \<and> truthy s"
  then show s: "webhook_signature body = Inr s"
    by (simp add: webhook_signature_def)
  from a show "handleWebhookPost ev (Some body) w = handleWebhookPost ev (Some (canonical_body s)) w"
    by (intro handle_webhook_uses s) simp
next
  assume a: "\<not> (\<exists>s1. array_signature body = Inr s1 \<and> truthy s1) \<and> event_signature body = Inr s
               \<and> truthy s"
  then show s: "webhook_signature body = Inr s"
    by (cases "array_signature body")
       (auto simp: webhook_signature_def dest: array_throws_no_other_shape)
  from a show "handleWebhookPost ev (Some body) w = handleWebhookPost ev (Some (canonical_body s)) w"
    by (intro handle_webhook_uses s) simp
next
  assume a: "\<not> (\<exists>s1. array_signature body = Inr s1 \<and> truthy s1)
       \<and> \<not> (\<exists>s2. event_signature body = Inr s2 \<and> truthy s2)
       \<and> direct_signature body = Inr s \<and> truthy s"
  then show s: "webhook_signature body = Inr s"
    by (cases "array_signature body"; cases "event_signature body")
       (auto simp: webhook_signature_def
             dest: array_throws_no_other_shape event_throws_direct_throws)
  from a show "handleWebhookPost ev (Some body) w = handleWebhookPost ev (Some (canonical_body s)) w"
    by (intro handle_webhook_uses s) simp
next
  assume a: "\<not> (\<exists>s1. array_signature body = Inr s1 \<and> truthy s1)
       \<and> \<not> (\<exists>s2. event_signature body = Inr s2 \<and> truthy s2)
       \<and> \<not> (\<exists>s3. direct_signature body = Inr s3 \<and> truthy s3)"
  then have "(\<exists>e. webhook_signature body = Inl e)
             \<or> (\<exists>u. webhook_signature body = Inr u \<and> \<not> truthy u)"
    by (cases "array_signature body"; cases "event_signature body";
        cases "direct_signature body")
       (auto simp: webhook_signature_def)
  then show "\<exists>resp. handleWebhookPost ev (Some body) w = (Inr resp, w) \<and> status resp = 400"
    by (auto simp: handleWebhookPost_def createJsonResponse_def)
next
  show "\<exists>resp. handleWebhookPost ev None w = (Inr resp, w) \<and> status resp = 400"
    by (simp add: handleWebhookPost_def createJsonResponse_def)
next
  assume "event_signature body = Inr s \<and> truthy s"
  then show "api_webhook ev body w = api_webhook ev (event_body s) w"
    by (simp add: api_webhook_def event_signature_event_body)
next
  assume "event_signature body = Inr s \<and> \<not> truthy s"
  then show "api_webhook ev body w = (Inr \<lparr>status = 400, payload = NoPayload\<rparr>, w)"
    by (simp add: api_webhook_def createJsonResponse_def)
qed

theorem array_payload_rejected_counterexample:
  "array_signature (JArr [canonical_body (JStr ''S1'')]) = Inr (JStr ''S1'')
   \<and> fst (api_webhook watch_env (JArr [canonical_body (JStr ''S1'')])
            (world_with (Some (transfer_tx ''10.0'' ''10.5'' (Some 1700000000)))))
       = Inr \<lparr>status = 400, payload = NoPayload\<rparr>
   \<and> calls (snd (api_webhook watch_env (JArr [canonical_body (JStr ''S1'')])
            (world_with (Some (transfer_tx ''10.0'' ''10.5'' (Some 1700000000)))))) = []"
  by code_simp

theorem webhook_shape_priority_witness:
  "webhook_signature (JArr [canonical_body (JStr ''A'')]) = Inr (JStr ''A'')
   \<and> direct_signature both_body = Inr (JStr ''B'')
   \<and> webhook_signature both_body = Inr (JStr ''A'')
   \<and> calls (snd (handleWebhookPost watch_env (Some both_body)
                   (world_with (Some (transfer_tx ''10.0'' ''10.5'' (Some 1700000000))))))
       = [LedgerFetch (JStr ''A''), DbUpsert (JStr ''A'')]
   \<and> webhook_signature (canonical_body (JStr ''B'')) = Inr (JStr ''B'')
   \<and> (\<exists>resp. handleWebhookPost watch_env (Some (JObj [])) (world_with None)
                = (Inr resp, world_with None) \<and> status resp = 400)
   \<and> api_webhook watch_env both_body (world_with None)
       = api_webhook watch_env (event_body (JStr ''A'')) (world_with None)
   \<and> api_webhook watch_env (canonical_body (JStr ''B'')) (world_with None)
       = (Inr \<lparr>status = 400, payload = NoPayload\<rparr>, world_with None)"
proof -
  let ?w = "world_with (Some (transfer_tx ''10.0'' ''10.5'' (Some 1700000000))) :: jsval world"
  have a1: "array_signature (JArr [canonical_body (JStr ''A'')]) = Inr (JStr ''A'')
              \<and> truthy (JStr ''A'')"
    by (simp add: array_signature_def canonical_body_def dot_def str_truthy_def)
  have a2: "\<not> (\<exists>s1. array_signature both_body = Inr s1 \<and> truthy s1)
              \<and> event_signature both_body = Inr (JStr ''A'') \<and> truthy (JStr ''A'')"
    by (simp add: array_signature_def both_body_def event_signature_def canonical_body_def dot_def
          opt_dot_def opt_elem0_def str_truthy_def)
  have d2: "direct_signature both_body = Inr (JStr ''B'')"
    by (simp add: direct_signature_def both_body_def dot_def)
  have a3: "\<not> (\<exists>s1. array_signature (canonical_body (JStr ''B'')) = Inr s1 \<and> truthy s1)
       \<and> \<not> (\<exists>s2. event_signature (canonical_body (JStr ''B'')) = Inr s2 \<and> truthy s2)
       \<and> direct_signature (canonical_body (JStr ''B'')) = Inr (JStr ''B'') \<and> truthy (JStr ''B'')"
    by (simp add: array_signature_def event_signature_def direct_signature_def canonical_body_def
          dot_def opt_dot_def opt_elem0_def str_truthy_def)
  have a4: "\<not> (\<exists>s1. array_signature (JObj []) = Inr s1 \<and> truthy s1)
       \<and> \<not> (\<exists>s2. event_signature (JObj []) = Inr s2 \<and> truthy s2)
       \<and> \<not> (\<exists>s3. direct_signature (JObj []) = Inr s3 \<and> truthy s3)"
    by (simp add: array_signature_def event_signature_def direct_signature_def dot_def opt_dot_def
          opt_elem0_def)
  have a5: "event_signature (canonical_body (JStr ''B'')) = Inr JUndefined \<and> \<not> truthy JUndefined"
    by (simp add: event_signature_def canonical_body_def dot_def opt_dot_def opt_elem0_def)
  have c: "calls (snd (handleWebhookPost watch_env (Some (canonical_body (JStr ''A''))) ?w))
             = [LedgerFetch (JStr ''A''), DbUpsert (JStr ''A'')]"
    by code_simp
  note p = webhook_shape_priority
  from p [of "JArr [canonical_body (JStr ''A'')]" "JStr ''A''"] a1
  have 1: "webhook_signature (JArr [canonical_body (JStr ''A'')]) = Inr (JStr ''A'')" by blast
  from p [of both_body "JStr ''A''" watch_env ?w] a2
  have 2: "webhook_signature both_body = Inr (JStr ''A'')"
    "handleWebhookPost watch_env (Some both_body) ?w
       = handleWebhookPost watch_env (Some (canonical_body (JStr ''A''))) ?w"
    by blast+
  from p [of "canonical_body (JStr ''B'')" "JStr ''B''"] a3
  have 3: "webhook_signature (canonical_body (JStr ''B'')) = Inr (JStr ''B'')" by blast
  from p [of "JObj []" _ watch_env "world_with None"] a4
  have 4: "\<exists>resp. handleWebhookPost watch_env (Some (JObj [])) (world_with None)
                = (Inr resp, world_with None) \<and> status resp = 400" by blast
  from p [of both_body "JStr ''A''" watch_env "world_with None"] a2
  have 5: "api_webhook watch_env both_body (world_with None)
       = api_webhook watch_env (event_body (JStr ''A'')) (world_with None)" by blast
  from p [of "canonical_body (JStr ''B'')" JUndefined watch_env "world_with None"] a5
  have 6: "api_webhook watch_env (canonical_body (JStr ''B'')) (world_with None)
       = (Inr \<lparr>status = 400, payload = NoPayload\<rparr>, world_with None)" by blast
  from 1 2 3 4 5 6 d2 c show ?thesis by simp
qed

text \<open>
  C9. The outcome of an extractor depends on the world only through what the ledger
  answers for the signature at hand: two runs with the same criteria and the same
  signature against worlds whose ledgers give the same record return the same outcome,
  whatever the store holds and whatever calls were made before. This holds in both
  variants.
\<close>

theorem extractor_deterministic:
  assumes "ledger w1 sig = ledger w2 sig"
  shows "fst (fetchAndProcessSolanaTransaction ev sig w1)
           = fst (fetchAndProcessSolanaTransaction ev sig w2)
         \<and> fst (processTransaction ev sig w1) = fst (processTransaction ev sig w2)"
  using assms
  by (simp add: fetchAndProcessSolanaTransaction_def processTransaction_def
        getParsedTransaction_def Let_def split: option.split sum.split)

theorem extractor_deterministic_witness:
  "ledger (world_with (Some (transfer_tx ''10.0'' ''10.5'' (Some 1700000000)))) ''S1''
     = ledger stored_world ''S1''
   \<and> supabaseClient (world_with (Some (transfer_tx ''10.0'' ''10.5'' (Some 1700000000))))
       \<noteq> supabaseClient stored_world
   \<and> fst (fetchAndProcessSolanaTransaction watch_env ''S1''
            (world_with (Some (transfer_tx ''10.0'' ''10.5'' (Some 1700000000)))))
       = fst (fetchAndProcessSolanaTransaction watch_env ''S1'' stored_world)
   \<and> fst (processTransaction watch_env ''S1''
            (world_with (Some (transfer_tx ''10.0'' ''10.5'' (Some 1700000000)))))
       = fst (processTransaction watch_env ''S1'' stored_world)"
proof -
  have l: "ledger (world_with (Some (transfer_tx ''10.0'' ''10.5'' (Some 1700000000)))) ''S1''
             = ledger stored_world ''S1''"
    by (simp add: world_with_def stored_world_def)
  have "(\<lambda>_. None) \<noteq> (\<lambda>s. if s = ''S1'' then Some stored_row else None)"
    by (auto dest: fun_cong [where x = "''S1''"])
  then have c: "supabaseClient (world_with (Some (transfer_tx ''10.0'' ''10.5'' (Some 1700000000))))
                  \<noteq> supabaseClient stored_world"
    by (simp add: world_with_def stored_world_def)
  from extractor_deterministic [OF l, of watch_env] l c show ?thesis by blast
qed

text \<open>
  C10. For a record the ledger returned, every result of either extractor has a null
  timestamp exactly when the record's block time is absent (or null) or zero; and for a
  record with metadata whose block time is 0, with both criteria set, both extractors do
  return a result, with a null timestamp.
\<close>

theorem timestamp_null_iff_no_block_time:
  assumes "ledger w sig = Inr (Some tx)"
  shows "(fst (fetchAndProcessSolanaTransaction ev sig w) = Inr (Some r)
            \<longrightarrow> (timestamp r = None \<longleftrightarrow> blockTime tx = None \<or> blockTime tx = Some 0))
       \<and> (fst (processTransaction ev sig w) = Inr (Some r')
            \<longrightarrow> (timestamp r' = None \<longleftrightarrow> blockTime tx = None \<or> blockTime tx = Some 0))
       \<and> (blockTime tx = Some 0 \<and> meta tx \<noteq> None
            \<and> USDC_MINT ev = Some usdc \<and> usdc \<noteq> [] \<and> SOLANA_ADDR ev = Some addr \<and> addr \<noteq> []
            \<longrightarrow> (\<exists>r. fst (fetchAndProcessSolanaTransaction ev sig w) = Inr (Some r)
                      \<and> timestamp r = None)
                \<and> (\<exists>r. fst (processTransaction ev sig w) = Inr (Some r) \<and> timestamp r = None))"
proof (intro conjI impI)
  assume "fst (fetchAndProcessSolanaTransaction ev sig w) = Inr (Some r)"
  from fetch_result [OF this] assms obtain pre post
    where "make_result sig pre post (blockTime tx) = Inr (Some r)" by auto
  from make_result_fields [OF this]
  show "timestamp r = None \<longleftrightarrow> blockTime tx = None \<or> blockTime tx = Some 0"
    by (auto dest: make_timestamp_null)
next
  assume "fst (processTransaction ev sig w) = Inr (Some r')"
  from process_result [OF this] assms obtain pre post
    where "make_result sig pre post (blockTime tx) = Inr (Some r')" by auto
  from make_result_fields [OF this]
  show "timestamp r' = None \<longleftrightarrow> blockTime tx = None \<or> blockTime tx = Some 0"
    by (auto dest: make_timestamp_null)
next
  assume a: "blockTime tx = Some 0 \<and> meta tx \<noteq> None
            \<and> USDC_MINT ev = Some usdc \<and> usdc \<noteq> [] \<and> SOLANA_ADDR ev = Some addr \<and> addr \<noteq> []"
  then obtain m where m: "meta tx = Some m" by auto
  have ts: "make_timestamp (blockTime tx) = Inr None"
    using a by (simp add: make_timestamp_def)
  from fetch_set [of ev usdc addr w sig tx m] a assms m obtain pre post
    where "fst (fetchAndProcessSolanaTransaction ev sig w) = make_result sig pre post (blockTime tx)"
    by auto
  then show "\<exists>r. fst (fetchAndProcessSolanaTransaction ev sig w) = Inr (Some r) \<and> timestamp r = None"
    by (simp add: make_result_Inr [OF ts])
next
  assume a: "blockTime tx = Some 0 \<and> meta tx \<noteq> None
            \<and> USDC_MINT ev = Some usdc \<and> usdc \<noteq> [] \<and> SOLANA_ADDR ev = Some addr \<and> addr \<noteq> []"
  then obtain m where m: "meta tx = Some m" by auto
  have ts: "make_timestamp (blockTime tx) = Inr None"
    using a by (simp add: make_timestamp_def)
  from process_token [of ev usdc addr w sig tx m] a assms m obtain pre post
    where "fst (processTransaction ev sig w) = make_result sig pre post (blockTime tx)"
    by auto
  then show "\<exists>r. fst (processTransaction ev sig w) = Inr (Some r) \<and> timestamp r = None"
    by (simp add: make_result_Inr [OF ts])
qed

theorem timestamp_null_iff_no_block_time_witness:
  "ledger (world_with (Some (transfer_tx ''10.0'' ''10.5'' (Some 0)))) ''S1''
     = Inr (Some (transfer_tx ''10.0'' ''10.5'' (Some 0)))
   \<and> fst (fetchAndProcessSolanaTransaction watch_env ''S1''
            (world_with (Some (transfer_tx ''10.0'' ''10.5'' (Some 0)))))
       = Inr (Some \<lparr>signature = ''S1'', preAmount = Fin 10, postAmount = Fin (21 / 2),
                    uiAmount = Fin (1 / 2), timestamp = None\<rparr>)
   \<and> fst (processTransaction watch_env ''S1''
            (world_with (Some (transfer_tx ''10.0'' ''10.5'' (Some 0)))))
       = Inr (Some \<lparr>signature = ''S1'', preAmount = Fin 10, postAmount = Fin (21 / 2),
                    uiAmount = Fin (1 / 2), timestamp = None\<rparr>)
   \<and> (timestamp \<lparr>signature = ''S1'', preAmount = Fin 10, postAmount = Fin (21 / 2),
                  uiAmount = Fin (1 / 2), timestamp = None\<rparr> = None
        \<longleftrightarrow> blockTime (transfer_tx ''10.0'' ''10.5'' (Some 0)) = None
            \<or> blockTime (transfer_tx ''10.0'' ''10.5'' (Some 0)) = Some 0)"
proof -
  let ?tx = "transfer_tx ''10.0'' ''10.5'' (Some 0)"
  let ?w = "world_with (Some ?tx) :: string world"
  let ?r = "\<lparr>signature = ''S1'', preAmount = Fin 10, postAmount = Fin (21 / 2),
             uiAmount = Fin (1 / 2), timestamp = None\<rparr>"
  have l: "ledger ?w ''S1'' = Inr (Some ?tx)" by (simp add: world_with_def)
  have a: "fst (fetchAndProcessSolanaTransaction watch_env ''S1'' ?w) = Inr (Some ?r)"
    by code_simp
  have b: "fst (processTransaction watch_env ''S1'' ?w) = Inr (Some ?r)"
    by code_simp
  from timestamp_null_iff_no_block_time [OF l, of watch_env ?r ?r] a b l
  show ?thesis by blast
qed

end
